theory Spec2Isabelle
  imports Main "HOL-Library.Word"
begin

unbundle bit_operations_syntax

text \<open>
  A model of the accounting core of the TypeScript port of TigerBeetle: the validators of
  \<open>validation.ts\<close>, the loops of \<open>createAccounts\<close> and \<open>createTransfers\<close> over a
  database of maps, and the identifier functions of \<open>id.ts\<close> over a buffer of bytes.
  The definitions come first, the verified properties after them.
\<close>

section \<open>Data model (types.ts)\<close>

text \<open>
  JavaScript \<open>bigint\<close> values are unbounded integers and are modelled as \<open>int\<close>.
  The \<open>number\<close> fields (\<open>ledger\<close>, \<open>code\<close>, \<open>flags\<close>, \<open>timeout\<close>, ...) are modelled as
  \<open>int\<close> as well: the model covers the numbers that are integers.
  Record fields carry a prefix (\<open>a_\<close> for Account, \<open>t_\<close> for Transfer) because both
  interfaces use the same field names.
  The TypeScript enums are numeric: at run time a member is its number. Each member is a
  constant holding that number (prefix \<open>AE_\<close> for \<open>CreateAccountError\<close>, \<open>TE_\<close> for
  \<open>CreateTransferError\<close>, whose member names coincide).
\<close>

text \<open>
  The bitwise operators of JavaScript work on 32 bits: each operand of \<open>&\<close> and \<open>~\<close> on
  numbers is first taken to a signed 32-bit integer (\<open>ToInt32\<close>: the value modulo \<open>2^32\<close>,
  read in two's complement). \<open>bitand32\<close> is \<open>&\<close> and \<open>bitnot32\<close> is \<open>~\<close>.
  With a mask \<open>m\<close> in the range \<open>0 \<le> m < 2^31\<close>, as all the flag constants and their
  unions are, \<open>x & m\<close> reads bits 0 to 30 of \<open>x\<close> only and equals \<open>x AND m\<close> on \<open>int\<close>
  (lemma \<open>bitand32_mask\<close>); the tests of that form are written with \<open>AND\<close>. The test
  \<open>flags & ~validFlagsMask\<close> reads the 32 low bits of \<open>flags\<close> and is written with
  \<open>bitand32\<close> and \<open>bitnot32\<close>.
\<close>

definition ToInt32 :: "int \<Rightarrow> int" where
  "ToInt32 x = signed_take_bit 31 x"

definition bitand32 :: "int \<Rightarrow> int \<Rightarrow> int" where
  "bitand32 x y = (ToInt32 x AND ToInt32 y)"

definition bitnot32 :: "int \<Rightarrow> int" where
  "bitnot32 x = NOT (ToInt32 x)"

definition AccountFlags_linked :: int where "AccountFlags_linked = 1"
definition AccountFlags_debits_must_not_exceed_credits :: int where
  "AccountFlags_debits_must_not_exceed_credits = 2"
definition AccountFlags_credits_must_not_exceed_debits :: int where
  "AccountFlags_credits_must_not_exceed_debits = 4"
definition AccountFlags_history :: int where "AccountFlags_history = 8"
definition AccountFlags_imported :: int where "AccountFlags_imported = 16"
definition AccountFlags_closed :: int where "AccountFlags_closed = 32"

definition TransferFlags_linked :: int where "TransferFlags_linked = 1"
definition TransferFlags_pending :: int where "TransferFlags_pending = 2"
definition TransferFlags_post_pending_transfer :: int where
  "TransferFlags_post_pending_transfer = 4"
definition TransferFlags_void_pending_transfer :: int where
  "TransferFlags_void_pending_transfer = 8"
definition TransferFlags_balancing_debit :: int where "TransferFlags_balancing_debit = 16"
definition TransferFlags_balancing_credit :: int where "TransferFlags_balancing_credit = 32"
definition TransferFlags_closing_debit :: int where "TransferFlags_closing_debit = 64"
definition TransferFlags_closing_credit :: int where "TransferFlags_closing_credit = 128"
definition TransferFlags_imported :: int where "TransferFlags_imported = 256"

record Account =
  a_id :: int
  a_debits_pending :: int
  a_debits_posted :: int
  a_credits_pending :: int
  a_credits_posted :: int
  a_user_data_128 :: int
  a_user_data_64 :: int
  a_user_data_32 :: int
  a_reserved :: int
  a_ledger :: int
  a_code :: int
  a_flags :: int
  a_timestamp :: int

record Transfer =
  t_id :: int
  t_debit_account_id :: int
  t_credit_account_id :: int
  t_amount :: int
  t_pending_id :: int
  t_user_data_128 :: int
  t_user_data_64 :: int
  t_user_data_32 :: int
  t_timeout :: int
  t_ledger :: int
  t_code :: int
  t_flags :: int
  t_timestamp :: int

type_synonym CreateAccountError = int

definition AE_ok :: CreateAccountError where "AE_ok = 0"
definition AE_linked_event_failed :: CreateAccountError where "AE_linked_event_failed = 1"
definition AE_linked_event_chain_open :: CreateAccountError where
  "AE_linked_event_chain_open = 2"
definition AE_imported_event_expected :: CreateAccountError where
  "AE_imported_event_expected = 22"
definition AE_imported_event_not_expected :: CreateAccountError where
  "AE_imported_event_not_expected = 23"
definition AE_timestamp_must_be_zero :: CreateAccountError where
  "AE_timestamp_must_be_zero = 3"
definition AE_imported_event_timestamp_out_of_range :: CreateAccountError where
  "AE_imported_event_timestamp_out_of_range = 24"
definition AE_imported_event_timestamp_must_not_advance :: CreateAccountError where
  "AE_imported_event_timestamp_must_not_advance = 25"
definition AE_reserved_field :: CreateAccountError where "AE_reserved_field = 4"
definition AE_reserved_flag :: CreateAccountError where "AE_reserved_flag = 5"
definition AE_id_must_not_be_zero :: CreateAccountError where "AE_id_must_not_be_zero = 6"
definition AE_id_must_not_be_int_max :: CreateAccountError where
  "AE_id_must_not_be_int_max = 7"
definition AE_exists_with_different_flags :: CreateAccountError where
  "AE_exists_with_different_flags = 15"
definition AE_exists_with_different_user_data_128 :: CreateAccountError where
  "AE_exists_with_different_user_data_128 = 16"
definition AE_exists_with_different_user_data_64 :: CreateAccountError where
  "AE_exists_with_different_user_data_64 = 17"
definition AE_exists_with_different_user_data_32 :: CreateAccountError where
  "AE_exists_with_different_user_data_32 = 18"
definition AE_exists_with_different_ledger :: CreateAccountError where
  "AE_exists_with_different_ledger = 19"
definition AE_exists_with_different_code :: CreateAccountError where
  "AE_exists_with_different_code = 20"
definition AE_exists :: CreateAccountError where "AE_exists = 21"
definition AE_flags_are_mutually_exclusive :: CreateAccountError where
  "AE_flags_are_mutually_exclusive = 8"
definition AE_debits_pending_must_be_zero :: CreateAccountError where
  "AE_debits_pending_must_be_zero = 9"
definition AE_debits_posted_must_be_zero :: CreateAccountError where
  "AE_debits_posted_must_be_zero = 10"
definition AE_credits_pending_must_be_zero :: CreateAccountError where
  "AE_credits_pending_must_be_zero = 11"
definition AE_credits_posted_must_be_zero :: CreateAccountError where
  "AE_credits_posted_must_be_zero = 12"
definition AE_ledger_must_not_be_zero :: CreateAccountError where
  "AE_ledger_must_not_be_zero = 13"
definition AE_code_must_not_be_zero :: CreateAccountError where "AE_code_must_not_be_zero = 14"
definition AE_imported_event_timestamp_must_not_regress :: CreateAccountError where
  "AE_imported_event_timestamp_must_not_regress = 26"

type_synonym CreateTransferError = int

definition TE_ok :: CreateTransferError where "TE_ok = 0"
definition TE_linked_event_failed :: CreateTransferError where "TE_linked_event_failed = 1"
definition TE_linked_event_chain_open :: CreateTransferError where
  "TE_linked_event_chain_open = 2"
definition TE_imported_event_expected :: CreateTransferError where
  "TE_imported_event_expected = 56"
definition TE_imported_event_not_expected :: CreateTransferError where
  "TE_imported_event_not_expected = 57"
definition TE_timestamp_must_be_zero :: CreateTransferError where
  "TE_timestamp_must_be_zero = 3"
definition TE_imported_event_timestamp_out_of_range :: CreateTransferError where
  "TE_imported_event_timestamp_out_of_range = 58"
definition TE_imported_event_timestamp_must_not_advance :: CreateTransferError where
  "TE_imported_event_timestamp_must_not_advance = 59"
definition TE_reserved_flag :: CreateTransferError where "TE_reserved_flag = 4"
definition TE_id_must_not_be_zero :: CreateTransferError where "TE_id_must_not_be_zero = 5"
definition TE_id_must_not_be_int_max :: CreateTransferError where
  "TE_id_must_not_be_int_max = 6"
definition TE_exists_with_different_flags :: CreateTransferError where
  "TE_exists_with_different_flags = 36"
definition TE_exists_with_different_pending_id :: CreateTransferError where
  "TE_exists_with_different_pending_id = 40"
definition TE_exists_with_different_timeout :: CreateTransferError where
  "TE_exists_with_different_timeout = 44"
definition TE_exists_with_different_debit_account_id :: CreateTransferError where
  "TE_exists_with_different_debit_account_id = 37"
definition TE_exists_with_different_credit_account_id :: CreateTransferError where
  "TE_exists_with_different_credit_account_id = 38"
definition TE_exists_with_different_amount :: CreateTransferError where
  "TE_exists_with_different_amount = 39"
definition TE_exists_with_different_user_data_128 :: CreateTransferError where
  "TE_exists_with_different_user_data_128 = 41"
definition TE_exists_with_different_user_data_64 :: CreateTransferError where
  "TE_exists_with_different_user_data_64 = 42"
definition TE_exists_with_different_user_data_32 :: CreateTransferError where
  "TE_exists_with_different_user_data_32 = 43"
definition TE_exists_with_different_ledger :: CreateTransferError where
  "TE_exists_with_different_ledger = 67"
definition TE_exists_with_different_code :: CreateTransferError where
  "TE_exists_with_different_code = 45"
definition TE_exists :: CreateTransferError where "TE_exists = 46"
definition TE_id_already_failed :: CreateTransferError where "TE_id_already_failed = 68"
definition TE_flags_are_mutually_exclusive :: CreateTransferError where
  "TE_flags_are_mutually_exclusive = 7"
definition TE_debit_account_id_must_not_be_zero :: CreateTransferError where
  "TE_debit_account_id_must_not_be_zero = 8"
definition TE_debit_account_id_must_not_be_int_max :: CreateTransferError where
  "TE_debit_account_id_must_not_be_int_max = 9"
definition TE_credit_account_id_must_not_be_zero :: CreateTransferError where
  "TE_credit_account_id_must_not_be_zero = 10"
definition TE_credit_account_id_must_not_be_int_max :: CreateTransferError where
  "TE_credit_account_id_must_not_be_int_max = 11"
definition TE_accounts_must_be_different :: CreateTransferError where
  "TE_accounts_must_be_different = 12"
definition TE_pending_id_must_be_zero :: CreateTransferError where
  "TE_pending_id_must_be_zero = 13"
definition TE_pending_id_must_not_be_zero :: CreateTransferError where
  "TE_pending_id_must_not_be_zero = 14"
definition TE_pending_id_must_not_be_int_max :: CreateTransferError where
  "TE_pending_id_must_not_be_int_max = 15"
definition TE_pending_id_must_be_different :: CreateTransferError where
  "TE_pending_id_must_be_different = 16"
definition TE_timeout_reserved_for_pending_transfer :: CreateTransferError where
  "TE_timeout_reserved_for_pending_transfer = 17"
definition TE_closing_transfer_must_be_pending :: CreateTransferError where
  "TE_closing_transfer_must_be_pending = 64"
definition TE_ledger_must_not_be_zero :: CreateTransferError where
  "TE_ledger_must_not_be_zero = 19"
definition TE_code_must_not_be_zero :: CreateTransferError where
  "TE_code_must_not_be_zero = 20"
definition TE_debit_account_not_found :: CreateTransferError where
  "TE_debit_account_not_found = 21"
definition TE_credit_account_not_found :: CreateTransferError where
  "TE_credit_account_not_found = 22"
definition TE_accounts_must_have_the_same_ledger :: CreateTransferError where
  "TE_accounts_must_have_the_same_ledger = 23"
definition TE_transfer_must_have_the_same_ledger_as_accounts :: CreateTransferError where
  "TE_transfer_must_have_the_same_ledger_as_accounts = 24"
definition TE_pending_transfer_not_found :: CreateTransferError where
  "TE_pending_transfer_not_found = 25"
definition TE_pending_transfer_not_pending :: CreateTransferError where
  "TE_pending_transfer_not_pending = 26"
definition TE_pending_transfer_has_different_debit_account_id :: CreateTransferError where
  "TE_pending_transfer_has_different_debit_account_id = 27"
definition TE_pending_transfer_has_different_credit_account_id :: CreateTransferError where
  "TE_pending_transfer_has_different_credit_account_id = 28"
definition TE_pending_transfer_has_different_ledger :: CreateTransferError where
  "TE_pending_transfer_has_different_ledger = 29"
definition TE_pending_transfer_has_different_code :: CreateTransferError where
  "TE_pending_transfer_has_different_code = 30"
definition TE_exceeds_pending_transfer_amount :: CreateTransferError where
  "TE_exceeds_pending_transfer_amount = 31"
definition TE_pending_transfer_has_different_amount :: CreateTransferError where
  "TE_pending_transfer_has_different_amount = 32"
definition TE_pending_transfer_already_posted :: CreateTransferError where
  "TE_pending_transfer_already_posted = 33"
definition TE_pending_transfer_already_voided :: CreateTransferError where
  "TE_pending_transfer_already_voided = 34"
definition TE_pending_transfer_expired :: CreateTransferError where
  "TE_pending_transfer_expired = 35"
definition TE_imported_event_timestamp_must_not_regress :: CreateTransferError where
  "TE_imported_event_timestamp_must_not_regress = 60"
definition TE_imported_event_timestamp_must_postdate_debit_account :: CreateTransferError where
  "TE_imported_event_timestamp_must_postdate_debit_account = 61"
definition TE_imported_event_timestamp_must_postdate_credit_account :: CreateTransferError where
  "TE_imported_event_timestamp_must_postdate_credit_account = 62"
definition TE_imported_event_timeout_must_be_zero :: CreateTransferError where
  "TE_imported_event_timeout_must_be_zero = 63"
definition TE_debit_account_already_closed :: CreateTransferError where
  "TE_debit_account_already_closed = 65"
definition TE_credit_account_already_closed :: CreateTransferError where
  "TE_credit_account_already_closed = 66"
definition TE_overflows_debits_pending :: CreateTransferError where
  "TE_overflows_debits_pending = 47"
definition TE_overflows_credits_pending :: CreateTransferError where
  "TE_overflows_credits_pending = 48"
definition TE_overflows_debits_posted :: CreateTransferError where
  "TE_overflows_debits_posted = 49"
definition TE_overflows_credits_posted :: CreateTransferError where
  "TE_overflows_credits_posted = 50"
definition TE_overflows_debits :: CreateTransferError where "TE_overflows_debits = 51"
definition TE_overflows_credits :: CreateTransferError where "TE_overflows_credits = 52"
definition TE_overflows_timeout :: CreateTransferError where "TE_overflows_timeout = 53"
definition TE_exceeds_credits :: CreateTransferError where "TE_exceeds_credits = 54"
definition TE_exceeds_debits :: CreateTransferError where "TE_exceeds_debits = 55"

text \<open>\<open>CreateTransfersError\<close>: one entry of the result array, \<open>{ index, result }\<close>.\<close>

type_synonym CreateTransfersError = "nat \<times> CreateTransferError"
type_synonym CreateAccountsError = "nat \<times> CreateAccountError"

definition amount_max :: int where "amount_max = 2 ^ 128 - 1"

text \<open>\<open>TransferPendingStatus\<close>, stored as a number in the \<open>pending_transfers\<close> table.\<close>

definition TransferPendingStatus_none :: int where "TransferPendingStatus_none = 0"
definition TransferPendingStatus_pending :: int where "TransferPendingStatus_pending = 1"
definition TransferPendingStatus_posted :: int where "TransferPendingStatus_posted = 2"
definition TransferPendingStatus_voided :: int where "TransferPendingStatus_voided = 3"
definition TransferPendingStatus_expired :: int where "TransferPendingStatus_expired = 4"

section \<open>Field validation (validation.ts)\<close>

definition validateAccount :: "Account \<Rightarrow> CreateAccountError" where
  "validateAccount account =
    (if a_id account = 0 then AE_id_must_not_be_zero
     else if a_id account \<ge> 2 ^ 128 - 1 then AE_id_must_not_be_int_max
     else if a_timestamp account \<noteq> 0 then AE_timestamp_must_be_zero
     else if a_reserved account \<noteq> 0 then AE_reserved_field
     else if a_ledger account = 0 then AE_ledger_must_not_be_zero
     else if a_code account = 0 then AE_code_must_not_be_zero
     else if a_debits_pending account \<noteq> 0 then AE_debits_pending_must_be_zero
     else if a_debits_posted account \<noteq> 0 then AE_debits_posted_must_be_zero
     else if a_credits_pending account \<noteq> 0 then AE_credits_pending_must_be_zero
     else if a_credits_posted account \<noteq> 0 then AE_credits_posted_must_be_zero
     else
       let flags = a_flags account;
           validFlagsMask =
             AccountFlags_linked OR AccountFlags_debits_must_not_exceed_credits OR
             AccountFlags_credits_must_not_exceed_debits OR AccountFlags_history OR
             AccountFlags_imported OR AccountFlags_closed
       in
         if bitand32 flags (bitnot32 validFlagsMask) \<noteq> 0 then AE_reserved_flag
         else if (flags AND AccountFlags_debits_must_not_exceed_credits) \<noteq> 0 \<and>
                 (flags AND AccountFlags_credits_must_not_exceed_debits) \<noteq> 0
              then AE_flags_are_mutually_exclusive
         else AE_ok)"

definition validateAccountExists :: "Account \<Rightarrow> Account \<Rightarrow> CreateAccountError" where
  "validateAccountExists existing new_account =
    (if a_flags existing \<noteq> a_flags new_account then AE_exists_with_different_flags
     else if a_user_data_128 existing \<noteq> a_user_data_128 new_account
       then AE_exists_with_different_user_data_128
     else if a_user_data_64 existing \<noteq> a_user_data_64 new_account
       then AE_exists_with_different_user_data_64
     else if a_user_data_32 existing \<noteq> a_user_data_32 new_account
       then AE_exists_with_different_user_data_32
     else if a_ledger existing \<noteq> a_ledger new_account then AE_exists_with_different_ledger
     else if a_code existing \<noteq> a_code new_account then AE_exists_with_different_code
     else AE_exists)"

definition validateTransfer :: "Transfer \<Rightarrow> CreateTransferError" where
  "validateTransfer transfer =
    (if t_id transfer = 0 then TE_id_must_not_be_zero
     else if t_id transfer \<ge> 2 ^ 128 - 1 then TE_id_must_not_be_int_max
     else if t_timestamp transfer \<noteq> 0 then TE_timestamp_must_be_zero
     else if t_debit_account_id transfer = 0 then TE_debit_account_id_must_not_be_zero
     else if t_debit_account_id transfer \<ge> 2 ^ 128 - 1
       then TE_debit_account_id_must_not_be_int_max
     else if t_credit_account_id transfer = 0 then TE_credit_account_id_must_not_be_zero
     else if t_credit_account_id transfer \<ge> 2 ^ 128 - 1
       then TE_credit_account_id_must_not_be_int_max
     else if t_debit_account_id transfer = t_credit_account_id transfer
       then TE_accounts_must_be_different
     else if t_amount transfer = 0 then TE_exists
     else if t_amount transfer > amount_max then TE_overflows_debits
     else if t_ledger transfer = 0 then TE_ledger_must_not_be_zero
     else if t_code transfer = 0 then TE_code_must_not_be_zero
     else
       let flags = t_flags transfer;
           validFlagsMask =
             TransferFlags_linked OR TransferFlags_pending OR
             TransferFlags_post_pending_transfer OR TransferFlags_void_pending_transfer OR
             TransferFlags_balancing_debit OR TransferFlags_balancing_credit OR
             TransferFlags_closing_debit OR TransferFlags_closing_credit OR
             TransferFlags_imported;
           pendingFlags =
             TransferFlags_pending OR TransferFlags_post_pending_transfer OR
             TransferFlags_void_pending_transfer;
           pendingFlagsSet = flags AND pendingFlags;
           balancingFlags = TransferFlags_balancing_debit OR TransferFlags_balancing_credit;
           closingFlags = TransferFlags_closing_debit OR TransferFlags_closing_credit
       in
         if bitand32 flags (bitnot32 validFlagsMask) \<noteq> 0 then TE_reserved_flag
         else if pendingFlagsSet \<noteq> 0 \<and> (pendingFlagsSet AND (pendingFlagsSet - 1)) \<noteq> 0
           then TE_flags_are_mutually_exclusive
         else if (flags AND balancingFlags) = balancingFlags
           then TE_flags_are_mutually_exclusive
         else if (flags AND closingFlags) = closingFlags
           then TE_flags_are_mutually_exclusive
         else
           (case
              (if (flags AND TransferFlags_pending) \<noteq> 0 then
                 (if t_pending_id transfer \<noteq> 0 then Some TE_pending_id_must_be_zero
                  else None)
               else if (flags AND (TransferFlags_post_pending_transfer OR
                                   TransferFlags_void_pending_transfer)) \<noteq> 0 then
                 (if t_pending_id transfer = 0 then Some TE_pending_id_must_not_be_zero
                  else if t_pending_id transfer \<ge> 2 ^ 128 - 1
                    then Some TE_pending_id_must_not_be_int_max
                  else if t_pending_id transfer = t_id transfer
                    then Some TE_pending_id_must_be_different
                  else None)
               else
                 (if t_pending_id transfer \<noteq> 0 then Some TE_pending_id_must_be_zero
                  else None))
            of
              Some e \<Rightarrow> e
            | None \<Rightarrow>
               (if (flags AND TransferFlags_pending) \<noteq> 0 then
                  (if t_timeout transfer > 0 \<and> t_timeout transfer > 2 ^ 32 - 1
                     then TE_overflows_timeout
                   else TE_ok)
                else
                  (if t_timeout transfer \<noteq> 0 then TE_timeout_reserved_for_pending_transfer
                   else TE_ok))))"

definition validateTransferExists :: "Transfer \<Rightarrow> Transfer \<Rightarrow> CreateTransferError" where
  "validateTransferExists existing new_transfer =
    (if t_flags existing \<noteq> t_flags new_transfer then TE_exists_with_different_flags
     else if t_debit_account_id existing \<noteq> t_debit_account_id new_transfer
       then TE_exists_with_different_debit_account_id
     else if t_credit_account_id existing \<noteq> t_credit_account_id new_transfer
       then TE_exists_with_different_credit_account_id
     else if t_amount existing \<noteq> t_amount new_transfer then TE_exists_with_different_amount
     else if t_pending_id existing \<noteq> t_pending_id new_transfer
       then TE_exists_with_different_pending_id
     else if t_user_data_128 existing \<noteq> t_user_data_128 new_transfer
       then TE_exists_with_different_user_data_128
     else if t_user_data_64 existing \<noteq> t_user_data_64 new_transfer
       then TE_exists_with_different_user_data_64
     else if t_user_data_32 existing \<noteq> t_user_data_32 new_transfer
       then TE_exists_with_different_user_data_32
     else if t_timeout existing \<noteq> t_timeout new_transfer
       then TE_exists_with_different_timeout
     else if t_ledger existing \<noteq> t_ledger new_transfer then TE_exists_with_different_ledger
     else if t_code existing \<noteq> t_code new_transfer then TE_exists_with_different_code
     else TE_exists)"

definition canDebitAccount :: "Account \<Rightarrow> int \<Rightarrow> bool" where
  "canDebitAccount account amount =
    (if (a_flags account AND AccountFlags_debits_must_not_exceed_credits) \<noteq> 0 then
       (let newDebits = a_debits_posted account + amount
        in newDebits \<le> a_credits_posted account)
     else True)"

definition canCreditAccount :: "Account \<Rightarrow> int \<Rightarrow> bool" where
  "canCreditAccount account amount =
    (if (a_flags account AND AccountFlags_credits_must_not_exceed_debits) \<noteq> 0 then
       (let newCredits = a_credits_posted account + amount
        in newCredits \<le> a_debits_posted account)
     else True)"

text \<open>
  \<open>validateTransferAccounts\<close>: an account that was not found is \<open>None\<close>; the optional
  pending transfer and its status are \<open>None\<close> when \<open>undefined\<close>.
\<close>

definition validateTransferAccounts ::
  "Transfer \<Rightarrow> Account option \<Rightarrow> Account option \<Rightarrow> Transfer option \<Rightarrow> int option
     \<Rightarrow> CreateTransferError" where
  "validateTransferAccounts transfer debitAccount' creditAccount' pendingTransfer' pendingStatus =
    (case debitAccount' of
       None \<Rightarrow> TE_debit_account_not_found
     | Some debitAccount \<Rightarrow>
    (case creditAccount' of
       None \<Rightarrow> TE_credit_account_not_found
     | Some creditAccount \<Rightarrow>
       if a_ledger debitAccount \<noteq> a_ledger creditAccount
         then TE_accounts_must_have_the_same_ledger
       else if t_ledger transfer \<noteq> a_ledger debitAccount
         then TE_transfer_must_have_the_same_ledger_as_accounts
       else if (a_flags debitAccount AND AccountFlags_closed) \<noteq> 0
         then TE_debit_account_already_closed
       else if (a_flags creditAccount AND AccountFlags_closed) \<noteq> 0
         then TE_credit_account_already_closed
       else
         (case
            (if (t_flags transfer AND (TransferFlags_post_pending_transfer OR
                                       TransferFlags_void_pending_transfer)) \<noteq> 0 then
               (case pendingTransfer' of
                  None \<Rightarrow> Some TE_pending_transfer_not_found
                | Some pendingTransfer \<Rightarrow>
                    if pendingStatus = None \<or> pendingStatus = Some 0 \<or>
                       pendingStatus \<noteq> Some TransferPendingStatus_pending
                      then Some TE_pending_transfer_not_pending
                    else if t_debit_account_id pendingTransfer \<noteq> t_debit_account_id transfer
                      then Some TE_pending_transfer_has_different_debit_account_id
                    else if t_credit_account_id pendingTransfer \<noteq> t_credit_account_id transfer
                      then Some TE_pending_transfer_has_different_credit_account_id
                    else if t_ledger pendingTransfer \<noteq> t_ledger transfer
                      then Some TE_pending_transfer_has_different_ledger
                    else if t_code pendingTransfer \<noteq> t_code transfer
                      then Some TE_pending_transfer_has_different_code
                    else if (t_flags transfer AND TransferFlags_post_pending_transfer) \<noteq> 0 then
                      (if t_amount transfer > t_amount pendingTransfer
                         then Some TE_exceeds_pending_transfer_amount
                       else None)
                    else if (t_flags transfer AND TransferFlags_void_pending_transfer) \<noteq> 0 then
                      (if t_amount transfer \<noteq> t_amount pendingTransfer
                         then Some TE_pending_transfer_has_different_amount
                       else None)
                    else None)
             else None)
          of
            Some e \<Rightarrow> e
          | None \<Rightarrow>
              if \<not> canDebitAccount debitAccount (t_amount transfer) then TE_exceeds_credits
              else if \<not> canCreditAccount creditAccount (t_amount transfer) then TE_exceeds_debits
              else TE_ok)))"

text \<open>\<open>wouldOverflowAccount\<close> returns \<open>null\<close> (here \<open>None\<close>) when nothing overflows.\<close>

definition wouldOverflowAccount :: "Account \<Rightarrow> int \<Rightarrow> int \<Rightarrow> CreateTransferError option" where
  "wouldOverflowAccount account debitAmount creditAmount =
    (let maxU128 = 2 ^ 128 - 1 in
     if a_debits_posted account + debitAmount > maxU128 then Some TE_overflows_debits_posted
     else if a_credits_posted account + creditAmount > maxU128
       then Some TE_overflows_credits_posted
     else if a_debits_posted account + a_debits_pending account + debitAmount > maxU128
       then Some TE_overflows_debits
     else if a_credits_posted account + a_credits_pending account + creditAmount > maxU128
       then Some TE_overflows_credits
     else None)"

section \<open>The storage collaborator and create\_transfers (database/mysql-database.ts)\<close>

text \<open>
  The SQL tables are maps from primary key to row. \<open>pending_transfers\<close> holds the status of
  every two-phase transfer; the MySQL schema keeps it up to date by the trigger
  \<open>transfer_pending_insert\<close> and the Turso implementation by explicit statements after the
  insert of the transfer, with the same effect. \<open>account_balances\<close> is keyed by
  \<open>(account_id, timestamp)\<close>.
\<close>


record PendingTransferRow =
  p_status :: int
  p_expires_at :: int
  p_timestamp :: int

record AccountBalance =
  b_debits_pending :: int
  b_debits_posted :: int
  b_credits_pending :: int
  b_credits_posted :: int

record Database =
  accounts :: "int \<rightharpoonup> Account"
  transfers :: "int \<rightharpoonup> Transfer"
  pending_transfers :: "int \<rightharpoonup> PendingTransferRow"
  account_balances :: "int \<times> int \<rightharpoonup> AccountBalance"

definition lookupAccount :: "Database \<Rightarrow> int \<Rightarrow> Account option" where
  "lookupAccount db i = accounts db i"

definition lookupTransfer :: "Database \<Rightarrow> int \<Rightarrow> Transfer option" where
  "lookupTransfer db i = transfers db i"

text \<open>\<open>UPDATE accounts SET ... WHERE id = ?\<close>: no row, no change.\<close>

definition update_accounts :: "int \<Rightarrow> (Account \<Rightarrow> Account) \<Rightarrow> Database \<Rightarrow> Database" where
  "update_accounts i f db =
    (case accounts db i of
       None \<Rightarrow> db
     | Some a \<Rightarrow> db\<lparr>accounts := (accounts db)(i \<mapsto> f a)\<rparr>)"

definition update_pending_transfers ::
  "int \<Rightarrow> (PendingTransferRow \<Rightarrow> PendingTransferRow) \<Rightarrow> Database \<Rightarrow> Database" where
  "update_pending_transfers i f db =
    (case pending_transfers db i of
       None \<Rightarrow> db
     | Some p \<Rightarrow> db\<lparr>pending_transfers := (pending_transfers db)(i \<mapsto> f p)\<rparr>)"

definition getMaxDebitAmount :: "Account \<Rightarrow> int" where
  "getMaxDebitAmount account =
    (if (a_flags account AND AccountFlags_debits_must_not_exceed_credits) \<noteq> 0 then
       (let availableBalance = a_credits_posted account - a_debits_posted account
        in if availableBalance > 0 then availableBalance else 0)
     else 2 ^ 63 - 1)"

definition getMaxCreditAmount :: "Account \<Rightarrow> int" where
  "getMaxCreditAmount account =
    (if (a_flags account AND AccountFlags_credits_must_not_exceed_debits) \<noteq> 0 then
       (let availableBalance = a_debits_posted account - a_credits_posted account
        in if availableBalance > 0 then availableBalance else 0)
     else 2 ^ 63 - 1)"

definition calculateBalancingAmount :: "Transfer \<Rightarrow> Account \<Rightarrow> Account \<Rightarrow> int" where
  "calculateBalancingAmount transfer debitAccount creditAccount =
    (if (t_flags transfer AND TransferFlags_balancing_debit) \<noteq> 0 then
       (let maxDebitAmount = getMaxDebitAmount debitAccount
        in if maxDebitAmount < t_amount transfer then maxDebitAmount else t_amount transfer)
     else if (t_flags transfer AND TransferFlags_balancing_credit) \<noteq> 0 then
       (let maxCreditAmount = getMaxCreditAmount creditAccount
        in if maxCreditAmount < t_amount transfer then maxCreditAmount else t_amount transfer)
     else t_amount transfer)"

definition recordAccountBalance :: "int \<Rightarrow> int \<Rightarrow> Database \<Rightarrow> Database" where
  "recordAccountBalance accountId timestamp db =
    (case lookupAccount db accountId of
       None \<Rightarrow> db
     | Some account \<Rightarrow>
         db\<lparr>account_balances := (account_balances db)((accountId, timestamp) \<mapsto>
              \<lparr>b_debits_pending = a_debits_pending account,
               b_debits_posted = a_debits_posted account,
               b_credits_pending = a_credits_pending account,
               b_credits_posted = a_credits_posted account\<rparr>)\<rparr>)"

text \<open>
  \<open>updateAccountBalances\<close>: the statements \<open>UPDATE accounts SET debits_posted =
  debits_posted + ? ...\<close>, with the amount sent as a decimal string. The sums are modelled
  as the exact integer sums. An engine that converts the string to a floating-point number
  computes the exact sum as long as the operands and the result are below \<open>2^53\<close>;
  beyond that the total it stores can be a rounded one. The properties below state a
  stored total only within that range.
\<close>

definition updateAccountBalances :: "Transfer \<Rightarrow> Database \<Rightarrow> Database" where
  "updateAccountBalances transfer db =
    (let debitAccount = lookupAccount db (t_debit_account_id transfer);
         creditAccount = lookupAccount db (t_credit_account_id transfer);
         amount = t_amount transfer;
         db1 =
           (if (t_flags transfer AND TransferFlags_pending) \<noteq> 0 then
              update_accounts (t_credit_account_id transfer)
                (\<lambda>a. a\<lparr>a_credits_pending := a_credits_pending a + amount\<rparr>)
                (update_accounts (t_debit_account_id transfer)
                  (\<lambda>a. a\<lparr>a_debits_pending := a_debits_pending a + amount\<rparr>) db)
            else if (t_flags transfer AND TransferFlags_post_pending_transfer) \<noteq> 0 then
              update_accounts (t_credit_account_id transfer)
                (\<lambda>a. a\<lparr>a_credits_pending := a_credits_pending a - amount,
                       a_credits_posted := a_credits_posted a + amount\<rparr>)
                (update_accounts (t_debit_account_id transfer)
                  (\<lambda>a. a\<lparr>a_debits_pending := a_debits_pending a - amount,
                         a_debits_posted := a_debits_posted a + amount\<rparr>) db)
            else if (t_flags transfer AND TransferFlags_void_pending_transfer) \<noteq> 0 then
              update_accounts (t_credit_account_id transfer)
                (\<lambda>a. a\<lparr>a_credits_pending := a_credits_pending a - amount\<rparr>)
                (update_accounts (t_debit_account_id transfer)
                  (\<lambda>a. a\<lparr>a_debits_pending := a_debits_pending a - amount\<rparr>) db)
            else
              update_accounts (t_credit_account_id transfer)
                (\<lambda>a. a\<lparr>a_credits_posted := a_credits_posted a + amount\<rparr>)
                (update_accounts (t_debit_account_id transfer)
                  (\<lambda>a. a\<lparr>a_debits_posted := a_debits_posted a + amount\<rparr>) db));
         db2 =
           (case debitAccount of
              Some d \<Rightarrow>
                if (a_flags d AND AccountFlags_history) \<noteq> 0
                then recordAccountBalance (t_debit_account_id transfer) (t_timestamp transfer) db1
                else db1
            | None \<Rightarrow> db1)
     in
       (case creditAccount of
          Some c \<Rightarrow>
            if (a_flags c AND AccountFlags_history) \<noteq> 0
            then recordAccountBalance (t_credit_account_id transfer) (t_timestamp transfer) db2
            else db2
        | None \<Rightarrow> db2))"

text \<open>
  The state of the loop of \<open>createTransfers\<close>: the database inside the transaction, the
  \<open>errors\<close> array and \<open>lastTimestamp\<close>. \<open>Date.now()\<close> is an input: \<open>now i\<close> is the clock
  reading (milliseconds) taken while element \<open>i\<close> of the batch is processed.
\<close>

type_synonym LoopState = "Database \<times> CreateTransfersError list \<times> int"

text \<open>
  The writes for an accepted transfer, when the engine accepts every statement (see
  \<open>transfers_check\<close> above): the insert into \<open>transfers\<close>, the row of
  \<open>pending_transfers\<close> for a pending transfer, the status change for a posting or
  voiding transfer, and \<open>updateAccountBalances\<close>.
\<close>

definition insertTransfer :: "Transfer \<Rightarrow> Database \<Rightarrow> Database" where
  "insertTransfer transfer' db =
    (let db1 = db\<lparr>transfers := (transfers db)(t_id transfer' \<mapsto> transfer')\<rparr>;
         db2 =
           (if (t_flags transfer' AND TransferFlags_pending) \<noteq> 0 then
              db1\<lparr>pending_transfers := (pending_transfers db1)(t_id transfer' \<mapsto>
                \<lparr>p_status = 1,
                 p_expires_at =
                   (if t_timeout transfer' > 0
                    then t_timestamp transfer' + t_timeout transfer' * 1000000000
                    else 0),
                 p_timestamp = t_timestamp transfer'\<rparr>)\<rparr>
            else db1);
         db3 =
           (if (t_flags transfer' AND TransferFlags_post_pending_transfer) \<noteq> 0 then
              update_pending_transfers (t_pending_id transfer')
                (\<lambda>p. p\<lparr>p_status := 2, p_timestamp := t_timestamp transfer'\<rparr>) db2
            else db2);
         db4 =
           (if (t_flags transfer' AND TransferFlags_void_pending_transfer) \<noteq> 0 then
              update_pending_transfers (t_pending_id transfer')
                (\<lambda>p. p\<lparr>p_status := 3, p_timestamp := t_timestamp transfer'\<rparr>) db3
            else db3)
     in updateAccountBalances transfer' db4)"

text \<open>
  The timestamp of an accepted element: the clock reading in nanoseconds, or one more than
  the previous timestamp of the batch when the clock has not advanced.
\<close>

definition nextTimestamp :: "(nat \<Rightarrow> int) \<Rightarrow> nat \<Rightarrow> int \<Rightarrow> int" where
  "nextTimestamp now i lastTimestamp =
    (let currentTime = now i * 1000000
     in if currentTime \<le> lastTimestamp then lastTimestamp + 1 else currentTime)"

text \<open>
  \<open>pendingStatus || undefined\<close>: a missing status and the status 0 both become
  \<open>undefined\<close>.
\<close>

definition or_undefined :: "int option \<Rightarrow> int option" where
  "or_undefined pendingStatus =
    (case pendingStatus of None \<Rightarrow> None | Some s \<Rightarrow> if s = 0 then None else Some s)"

text \<open>
  Second half of the loop body, from ``Validate against accounts and pending transfer''
  to \<open>updateAccountBalances\<close>; \<open>transfer\<close> already carries the clamped amount. The last
  case is not reachable: \<open>validateTransferAccounts\<close> has rejected a missing account.
\<close>

definition createTransfers_commit ::
  "(nat \<Rightarrow> int) \<Rightarrow> nat \<Rightarrow> Transfer \<Rightarrow> Account option \<Rightarrow> Account option \<Rightarrow>
     Transfer option \<Rightarrow> int option \<Rightarrow> LoopState \<Rightarrow> LoopState" where
  "createTransfers_commit now i transfer debitAccount creditAccount pendingTransfer pendingStatus st =
    (case st of (db, errors, lastTimestamp) \<Rightarrow>
     let accountValidationError =
           validateTransferAccounts transfer debitAccount creditAccount pendingTransfer
             (or_undefined pendingStatus)
     in
     if accountValidationError \<noteq> TE_ok
     then (db, errors @ [(i, accountValidationError)], lastTimestamp)
     else
       (case (debitAccount, creditAccount) of
          (Some debitAcc, Some creditAcc) \<Rightarrow>
            (let debitAmount =
                   (if (t_flags transfer AND TransferFlags_pending) \<noteq> 0 then 0
                    else t_amount transfer);
                 creditAmount = debitAmount;
                 pendingDebitAmount =
                   (if (t_flags transfer AND TransferFlags_pending) \<noteq> 0 then t_amount transfer
                    else 0);
                 pendingCreditAmount = pendingDebitAmount
             in
             case wouldOverflowAccount debitAcc debitAmount 0 of
               Some debitOverflow \<Rightarrow> (db, errors @ [(i, debitOverflow)], lastTimestamp)
             | None \<Rightarrow>
             (case wouldOverflowAccount creditAcc 0 creditAmount of
               Some creditOverflow \<Rightarrow> (db, errors @ [(i, creditOverflow)], lastTimestamp)
             | None \<Rightarrow>
               (let currentTime = nextTimestamp now i lastTimestamp;
                    transfer' = transfer\<lparr>t_timestamp := currentTime\<rparr>
                in (insertTransfer transfer' db, errors, currentTime))))
        | _ \<Rightarrow> (db, errors, lastTimestamp)))"

text \<open>
  ``Load pending transfer if needed'': only a posting or voiding transfer looks its pending
  transfer up, and the status row only when that transfer exists.
\<close>

definition loadPendingTransfer :: "Database \<Rightarrow> Transfer \<Rightarrow> Transfer option" where
  "loadPendingTransfer db transfer =
    (if (t_flags transfer AND (TransferFlags_post_pending_transfer OR
                               TransferFlags_void_pending_transfer)) \<noteq> 0
     then lookupTransfer db (t_pending_id transfer) else None)"

definition loadPendingStatus :: "Database \<Rightarrow> Transfer \<Rightarrow> int option" where
  "loadPendingStatus db transfer =
    (case loadPendingTransfer db transfer of
       None \<Rightarrow> None
     | Some _ \<Rightarrow>
         (case pending_transfers db (t_pending_id transfer) of
            None \<Rightarrow> None
          | Some row \<Rightarrow> Some (p_status row)))"

text \<open>
  The loop body for element \<open>i\<close>. Every \<open>continue\<close> of the source is a branch that returns
  the state with at most one more entry in \<open>errors\<close>.
\<close>

definition createTransfers_iteration ::
  "(nat \<Rightarrow> int) \<Rightarrow> nat \<Rightarrow> Transfer \<Rightarrow> LoopState \<Rightarrow> LoopState" where
  "createTransfers_iteration now i transfer st =
    (case st of (db, errors, lastTimestamp) \<Rightarrow>
     let validationError = validateTransfer transfer in
     if validationError \<noteq> TE_ok then (db, errors @ [(i, validationError)], lastTimestamp)
     else
       (case lookupTransfer db (t_id transfer) of
          Some existingTransfer \<Rightarrow>
            (db, errors @ [(i, validateTransferExists existingTransfer transfer)], lastTimestamp)
        | None \<Rightarrow>
            (let debitAccount = lookupAccount db (t_debit_account_id transfer);
                 creditAccount = lookupAccount db (t_credit_account_id transfer);
                 pendingTransfer = loadPendingTransfer db transfer;
                 pendingStatus = loadPendingStatus db transfer
             in
             if (t_flags transfer AND (TransferFlags_balancing_debit OR
                                       TransferFlags_balancing_credit)) \<noteq> 0 then
               (case (debitAccount, creditAccount) of
                  (Some debitAcc, Some creditAcc) \<Rightarrow>
                    (let clampedAmount = calculateBalancingAmount transfer debitAcc creditAcc in
                     if clampedAmount = 0 then (db, errors, lastTimestamp)
                     else createTransfers_commit now i (transfer\<lparr>t_amount := clampedAmount\<rparr>)
                            debitAccount creditAccount pendingTransfer pendingStatus st)
                | _ \<Rightarrow> createTransfers_commit now i transfer
                         debitAccount creditAccount pendingTransfer pendingStatus st)
             else createTransfers_commit now i transfer
                    debitAccount creditAccount pendingTransfer pendingStatus st)))"

fun createTransfers_loop ::
  "(nat \<Rightarrow> int) \<Rightarrow> nat \<Rightarrow> Transfer list \<Rightarrow> LoopState \<Rightarrow> LoopState" where
  "createTransfers_loop now i [] st = st"
| "createTransfers_loop now i (transfer # rest) st =
     createTransfers_loop now (Suc i) rest (createTransfers_iteration now i transfer st)"

text \<open>\<open>createTransfers\<close> returns the \<open>errors\<close> array; the committed database is its effect.\<close>

definition createTransfers ::
  "(nat \<Rightarrow> int) \<Rightarrow> Transfer list \<Rightarrow> Database \<Rightarrow> CreateTransfersError list \<times> Database" where
  "createTransfers now transfers_in db =
    (case createTransfers_loop now 0 transfers_in (db, [], 0) of
       (db', errors, lastTimestamp) \<Rightarrow> (errors, db'))"

subsection \<open>create\_accounts\<close>

text \<open>
  The insert cannot meet a duplicate key here, since the id has just been looked up in the
  same transaction; the \<open>catch\<close> around it has no counterpart in the model.
\<close>

type_synonym AccountLoopState = "Database \<times> CreateAccountsError list \<times> int"

definition createAccounts_iteration ::
  "(nat \<Rightarrow> int) \<Rightarrow> nat \<Rightarrow> Account \<Rightarrow> AccountLoopState \<Rightarrow> AccountLoopState" where
  "createAccounts_iteration now i account st =
    (case st of (db, errors, lastTimestamp) \<Rightarrow>
     let validationError = validateAccount account in
     if validationError \<noteq> AE_ok then (db, errors @ [(i, validationError)], lastTimestamp)
     else
       (case lookupAccount db (a_id account) of
          Some existingAccount \<Rightarrow>
            (db, errors @ [(i, validateAccountExists existingAccount account)], lastTimestamp)
        | None \<Rightarrow>
            (let currentTime = nextTimestamp now i lastTimestamp
             in (db\<lparr>accounts := (accounts db)(a_id account \<mapsto>
                      account\<lparr>a_timestamp := currentTime\<rparr>)\<rparr>,
                 errors, currentTime))))"

fun createAccounts_loop ::
  "(nat \<Rightarrow> int) \<Rightarrow> nat \<Rightarrow> Account list \<Rightarrow> AccountLoopState \<Rightarrow> AccountLoopState" where
  "createAccounts_loop now i [] st = st"
| "createAccounts_loop now i (account # rest) st =
     createAccounts_loop now (Suc i) rest (createAccounts_iteration now i account st)"

definition createAccounts ::
  "(nat \<Rightarrow> int) \<Rightarrow> Account list \<Rightarrow> Database \<Rightarrow> CreateAccountsError list \<times> Database" where
  "createAccounts now accounts_in db =
    (case createAccounts_loop now 0 accounts_in (db, [], 0) of
       (db', errors, lastTimestamp) \<Rightarrow> (errors, db'))"

section \<open>Priority orders, as lists of rules\<close>

text \<open>
  A rule is a violation test with the outcome it reports; \<open>first_violated\<close> reports the
  outcome of the first rule of a list that is violated, and \<open>ok\<close> when none is. The two
  lists below state the order of the checks, to be compared with the validators.
\<close>

type_synonym 'a rule = "('a \<Rightarrow> bool) \<times> int"

fun first_violated :: "'a rule list \<Rightarrow> int \<Rightarrow> 'a \<Rightarrow> int" where
  "first_violated [] ok x = ok"
| "first_violated ((violated, e) # rules) ok x =
     (if violated x then e else first_violated rules ok x)"

definition account_rules :: "Account rule list" where
  "account_rules =
    [(\<lambda>a. a_id a = 0, AE_id_must_not_be_zero),
     (\<lambda>a. a_id a \<ge> 2 ^ 128 - 1, AE_id_must_not_be_int_max),
     (\<lambda>a. a_timestamp a \<noteq> 0, AE_timestamp_must_be_zero),
     (\<lambda>a. a_reserved a \<noteq> 0, AE_reserved_field),
     (\<lambda>a. a_ledger a = 0, AE_ledger_must_not_be_zero),
     (\<lambda>a. a_code a = 0, AE_code_must_not_be_zero),
     (\<lambda>a. a_debits_pending a \<noteq> 0, AE_debits_pending_must_be_zero),
     (\<lambda>a. a_debits_posted a \<noteq> 0, AE_debits_posted_must_be_zero),
     (\<lambda>a. a_credits_pending a \<noteq> 0, AE_credits_pending_must_be_zero),
     (\<lambda>a. a_credits_posted a \<noteq> 0, AE_credits_posted_must_be_zero),
     (\<lambda>a. bitand32 (a_flags a) (bitnot32 (AccountFlags_linked OR
                AccountFlags_debits_must_not_exceed_credits OR
                AccountFlags_credits_must_not_exceed_debits OR AccountFlags_history OR
                AccountFlags_imported OR AccountFlags_closed)) \<noteq> 0, AE_reserved_flag),
     (\<lambda>a. (a_flags a AND AccountFlags_debits_must_not_exceed_credits) \<noteq> 0 \<and>
           (a_flags a AND AccountFlags_credits_must_not_exceed_debits) \<noteq> 0,
        AE_flags_are_mutually_exclusive)]"

text \<open>
  For transfers the relational rule \<open>accounts_must_be_different\<close> and the amount rules come
  before the ledger and code rules; the rules on \<open>pending_id\<close> and \<open>timeout\<close> come last.
\<close>

definition is_pending :: "Transfer \<Rightarrow> bool" where
  "is_pending t = ((t_flags t AND TransferFlags_pending) \<noteq> 0)"

definition is_post_or_void :: "Transfer \<Rightarrow> bool" where
  "is_post_or_void t =
    ((t_flags t AND (TransferFlags_post_pending_transfer OR
                     TransferFlags_void_pending_transfer)) \<noteq> 0)"

definition transfer_rules :: "Transfer rule list" where
  "transfer_rules =
    [(\<lambda>t. t_id t = 0, TE_id_must_not_be_zero),
     (\<lambda>t. t_id t \<ge> 2 ^ 128 - 1, TE_id_must_not_be_int_max),
     (\<lambda>t. t_timestamp t \<noteq> 0, TE_timestamp_must_be_zero),
     (\<lambda>t. t_debit_account_id t = 0, TE_debit_account_id_must_not_be_zero),
     (\<lambda>t. t_debit_account_id t \<ge> 2 ^ 128 - 1, TE_debit_account_id_must_not_be_int_max),
     (\<lambda>t. t_credit_account_id t = 0, TE_credit_account_id_must_not_be_zero),
     (\<lambda>t. t_credit_account_id t \<ge> 2 ^ 128 - 1, TE_credit_account_id_must_not_be_int_max),
     (\<lambda>t. t_debit_account_id t = t_credit_account_id t, TE_accounts_must_be_different),
     (\<lambda>t. t_amount t = 0, TE_exists),
     (\<lambda>t. t_amount t > 2 ^ 128 - 1, TE_overflows_debits),
     (\<lambda>t. t_ledger t = 0, TE_ledger_must_not_be_zero),
     (\<lambda>t. t_code t = 0, TE_code_must_not_be_zero),
     (\<lambda>t. bitand32 (t_flags t) (bitnot32 (TransferFlags_linked OR TransferFlags_pending OR
                TransferFlags_post_pending_transfer OR TransferFlags_void_pending_transfer OR
                TransferFlags_balancing_debit OR TransferFlags_balancing_credit OR
                TransferFlags_closing_debit OR TransferFlags_closing_credit OR
                TransferFlags_imported)) \<noteq> 0, TE_reserved_flag),
     (\<lambda>t. let pendingFlagsSet = t_flags t AND (TransferFlags_pending OR
                  TransferFlags_post_pending_transfer OR TransferFlags_void_pending_transfer)
          in pendingFlagsSet \<noteq> 0 \<and> (pendingFlagsSet AND (pendingFlagsSet - 1)) \<noteq> 0,
        TE_flags_are_mutually_exclusive),
     (\<lambda>t. (t_flags t AND (TransferFlags_balancing_debit OR TransferFlags_balancing_credit)) =
             (TransferFlags_balancing_debit OR TransferFlags_balancing_credit),
        TE_flags_are_mutually_exclusive),
     (\<lambda>t. (t_flags t AND (TransferFlags_closing_debit OR TransferFlags_closing_credit)) =
             (TransferFlags_closing_debit OR TransferFlags_closing_credit),
        TE_flags_are_mutually_exclusive),
     (\<lambda>t. is_pending t \<and> t_pending_id t \<noteq> 0, TE_pending_id_must_be_zero),
     (\<lambda>t. \<not> is_pending t \<and> is_post_or_void t \<and> t_pending_id t = 0,
        TE_pending_id_must_not_be_zero),
     (\<lambda>t. \<not> is_pending t \<and> is_post_or_void t \<and> t_pending_id t \<ge> 2 ^ 128 - 1,
        TE_pending_id_must_not_be_int_max),
     (\<lambda>t. \<not> is_pending t \<and> is_post_or_void t \<and> t_pending_id t = t_id t,
        TE_pending_id_must_be_different),
     (\<lambda>t. \<not> is_pending t \<and> \<not> is_post_or_void t \<and> t_pending_id t \<noteq> 0,
        TE_pending_id_must_be_zero),
     (\<lambda>t. is_pending t \<and> t_timeout t > 0 \<and> t_timeout t > 2 ^ 32 - 1, TE_overflows_timeout),
     (\<lambda>t. \<not> is_pending t \<and> t_timeout t \<noteq> 0, TE_timeout_reserved_for_pending_transfer)]"

text \<open>
  The existence reconciler compares a list of fields in order; \<open>first_difference\<close> reports
  the outcome attached to the first field on which the two records differ.
\<close>

fun first_difference :: "(('r \<Rightarrow> int) \<times> int) list \<Rightarrow> int \<Rightarrow> 'r \<Rightarrow> 'r \<Rightarrow> int" where
  "first_difference [] same existing new = same"
| "first_difference ((fld, e) # flds) same existing new =
     (if fld existing \<noteq> fld new then e else first_difference flds same existing new)"

definition account_exists_fields :: "((Account \<Rightarrow> int) \<times> int) list" where
  "account_exists_fields =
    [(a_flags, AE_exists_with_different_flags),
     (a_user_data_128, AE_exists_with_different_user_data_128),
     (a_user_data_64, AE_exists_with_different_user_data_64),
     (a_user_data_32, AE_exists_with_different_user_data_32),
     (a_ledger, AE_exists_with_different_ledger),
     (a_code, AE_exists_with_different_code)]"

text \<open>The order in which \<open>validateTransferExists\<close> compares.\<close>

definition transfer_exists_fields :: "((Transfer \<Rightarrow> int) \<times> int) list" where
  "transfer_exists_fields =
    [(t_flags, TE_exists_with_different_flags),
     (t_debit_account_id, TE_exists_with_different_debit_account_id),
     (t_credit_account_id, TE_exists_with_different_credit_account_id),
     (t_amount, TE_exists_with_different_amount),
     (t_pending_id, TE_exists_with_different_pending_id),
     (t_user_data_128, TE_exists_with_different_user_data_128),
     (t_user_data_64, TE_exists_with_different_user_data_64),
     (t_user_data_32, TE_exists_with_different_user_data_32),
     (t_timeout, TE_exists_with_different_timeout),
     (t_ledger, TE_exists_with_different_ledger),
     (t_code, TE_exists_with_different_code)]"

text \<open>
  The order the specification gives for transfers: the fields shared with accounts first,
  then the fields only transfers have.
\<close>

definition transfer_exists_fields_spec :: "((Transfer \<Rightarrow> int) \<times> int) list" where
  "transfer_exists_fields_spec =
    [(t_flags, TE_exists_with_different_flags),
     (t_user_data_128, TE_exists_with_different_user_data_128),
     (t_user_data_64, TE_exists_with_different_user_data_64),
     (t_user_data_32, TE_exists_with_different_user_data_32),
     (t_ledger, TE_exists_with_different_ledger),
     (t_code, TE_exists_with_different_code),
     (t_debit_account_id, TE_exists_with_different_debit_account_id),
     (t_credit_account_id, TE_exists_with_different_credit_account_id),
     (t_amount, TE_exists_with_different_amount),
     (t_pending_id, TE_exists_with_different_pending_id),
     (t_timeout, TE_exists_with_different_timeout)]"

section \<open>Concrete records used in the examples\<close>

definition account0 :: Account where
  "account0 =
    \<lparr>a_id = 0, a_debits_pending = 0, a_debits_posted = 0, a_credits_pending = 0,
     a_credits_posted = 0, a_user_data_128 = 0, a_user_data_64 = 0, a_user_data_32 = 0,
     a_reserved = 0, a_ledger = 0, a_code = 0, a_flags = 0, a_timestamp = 0\<rparr>"

text \<open>A stored account: \<open>mk_account i flags\<close> on ledger 1 with code 1 and zero balances.\<close>

definition mk_account :: "int \<Rightarrow> int \<Rightarrow> Account" where
  "mk_account i flags = account0\<lparr>a_id := i, a_ledger := 1, a_code := 1, a_flags := flags\<rparr>"

definition transfer0 :: Transfer where
  "transfer0 =
    \<lparr>t_id = 0, t_debit_account_id = 0, t_credit_account_id = 0, t_amount = 0,
     t_pending_id = 0, t_user_data_128 = 0, t_user_data_64 = 0, t_user_data_32 = 0,
     t_timeout = 0, t_ledger = 0, t_code = 0, t_flags = 0, t_timestamp = 0\<rparr>"

text \<open>A request: \<open>mk_transfer i debit credit amount flags\<close> on ledger 1 with code 1.\<close>

definition mk_transfer :: "int \<Rightarrow> int \<Rightarrow> int \<Rightarrow> int \<Rightarrow> int \<Rightarrow> Transfer" where
  "mk_transfer i debit credit amount flags =
    transfer0\<lparr>t_id := i, t_debit_account_id := debit, t_credit_account_id := credit,
      t_amount := amount, t_ledger := 1, t_code := 1, t_flags := flags\<rparr>"

definition empty_db :: Database where
  "empty_db = \<lparr>accounts = Map.empty, transfers = Map.empty,
     pending_transfers = Map.empty, account_balances = Map.empty\<rparr>"

definition db_with_duplicates :: Database where
  "db_with_duplicates =
     empty_db\<lparr>accounts := [1 \<mapsto> (mk_account 1 0)\<lparr>a_timestamp := 5\<rparr>],
       transfers := [9 \<mapsto> (mk_transfer 9 1 2 10 0)\<lparr>t_timestamp := 5\<rparr>]\<rparr>"

text \<open>
  The outcomes the loop body can report: what one of the three validators returns, or what
  \<open>wouldOverflowAccount\<close> returns.
\<close>

definition reportable :: "CreateTransferError \<Rightarrow> bool" where
  "reportable e =
    ((\<exists>t. e = validateTransfer t) \<or> (\<exists>x t. e = validateTransferExists x t) \<or>
     (\<exists>t d c p s. e = validateTransferAccounts t d c p s) \<or>
     (\<exists>a x y. wouldOverflowAccount a x y = Some e))"




text \<open>
  Three accounts on ledger 1; account 1 must not debit more than its credits. In
  \<open>db_seeded\<close> account 1 has received 1000.
\<close>

definition db_seed :: Database where
  "db_seed =
     empty_db\<lparr>accounts :=
       [1 \<mapsto> mk_account 1 AccountFlags_debits_must_not_exceed_credits,
        2 \<mapsto> mk_account 2 0, 3 \<mapsto> mk_account 3 0]\<rparr>"

definition db_seeded :: Database where
  "db_seeded =
     empty_db\<lparr>accounts :=
       [1 \<mapsto> (mk_account 1 AccountFlags_debits_must_not_exceed_credits)
               \<lparr>a_credits_posted := 1000\<rparr>,
        2 \<mapsto> mk_account 2 0, 3 \<mapsto> mk_account 3 0]\<rparr>"

text \<open>
  A database with a pending transfer: transfer 40 reserves 300 from account 1 (which must
  not debit more than its credits, and has received 300) to account 3.
\<close>

definition db_two_phase :: Database where
  "db_two_phase =
     empty_db\<lparr>accounts :=
       [1 \<mapsto> (mk_account 1 AccountFlags_debits_must_not_exceed_credits)
               \<lparr>a_credits_posted := 300, a_debits_pending := 300\<rparr>,
        3 \<mapsto> (mk_account 3 0)\<lparr>a_credits_pending := 300\<rparr>],
       transfers := [40 \<mapsto> (mk_transfer 40 1 3 300 TransferFlags_pending)\<lparr>t_timestamp := 5\<rparr>],
       pending_transfers := [40 \<mapsto> \<lparr>p_status = 1, p_expires_at = 0, p_timestamp = 5\<rparr>]\<rparr>"

text \<open>A posting or voiding request from account 1 to account 3 that refers to \<open>pending_id\<close>.\<close>

definition mk_resolution :: "int \<Rightarrow> int \<Rightarrow> int \<Rightarrow> int \<Rightarrow> Transfer" where
  "mk_resolution i pending_id amount flags =
    (mk_transfer i 1 3 amount flags)\<lparr>t_pending_id := pending_id\<rparr>"

text \<open>
  The loop body rejects element \<open>i\<close> with outcome \<open>e\<close>: the outcome is appended to
  \<open>errors\<close> at index \<open>i\<close>, the database and \<open>lastTimestamp\<close> are unchanged.
\<close>

definition rejected_with ::
  "CreateTransferError \<Rightarrow> (nat \<Rightarrow> int) \<Rightarrow> nat \<Rightarrow> Transfer \<Rightarrow> LoopState \<Rightarrow> bool" where
  "rejected_with e now i t st =
    (case st of (db, errors, lastTimestamp) \<Rightarrow>
       createTransfers_iteration now i t st = (db, errors @ [(i, e)], lastTimestamp))"




text \<open>The balance-constraint check that ends \<open>validateTransferAccounts\<close>.\<close>

definition balance_check :: "Transfer \<Rightarrow> Account \<Rightarrow> Account \<Rightarrow> CreateTransferError" where
  "balance_check t D C =
    (if \<not> canDebitAccount D (t_amount t) then TE_exceeds_credits
     else if \<not> canCreditAccount C (t_amount t) then TE_exceeds_debits
     else TE_ok)"

section \<open>Identifiers (id.ts)\<close>

text \<open>
  An \<open>ArrayBuffer\<close> is a list of bytes, each a number below 256. The \<open>DataView\<close> accessors
  are only called with \<open>littleEndian = true\<close> and at constant offsets inside the 16 bytes,
  so the \<open>RangeError\<close> of an access out of range does not arise. \<open>le_val\<close> reads bytes as a
  little-endian number, \<open>le_bytes n v\<close> are the \<open>n\<close> low bytes of \<open>v\<close> (a setter stores its
  argument modulo \<open>2^(8n)\<close>).
\<close>

fun le_val :: "nat list \<Rightarrow> nat" where
  "le_val [] = 0"
| "le_val (b # bs) = b + 256 * le_val bs"

fun le_bytes :: "nat \<Rightarrow> nat \<Rightarrow> nat list" where
  "le_bytes 0 v = []"
| "le_bytes (Suc n) v = (v mod 256) # le_bytes n (v div 256)"

definition getUint :: "nat \<Rightarrow> nat list \<Rightarrow> nat \<Rightarrow> nat" where
  "getUint n buf byteOffset = le_val (take n (drop byteOffset buf))"

definition setUint :: "nat \<Rightarrow> nat list \<Rightarrow> nat \<Rightarrow> nat \<Rightarrow> nat list" where
  "setUint n buf byteOffset v =
    take byteOffset buf @ le_bytes n v @ drop (byteOffset + n) buf"

definition getUint16 :: "nat list \<Rightarrow> nat \<Rightarrow> nat" where
  "getUint16 = getUint 2"

definition getUint32 :: "nat list \<Rightarrow> nat \<Rightarrow> nat" where
  "getUint32 = getUint 4"

definition getBigUint64 :: "nat list \<Rightarrow> nat \<Rightarrow> nat" where
  "getBigUint64 = getUint 8"

definition setUint16 :: "nat list \<Rightarrow> nat \<Rightarrow> nat \<Rightarrow> nat list" where
  "setUint16 = setUint 2"

definition setUint32 :: "nat list \<Rightarrow> nat \<Rightarrow> nat \<Rightarrow> nat list" where
  "setUint32 = setUint 4"

definition setBigUint64 :: "nat list \<Rightarrow> nat \<Rightarrow> nat \<Rightarrow> nat list" where
  "setBigUint64 = setUint 8"









text \<open>The buffer is 16 bytes.\<close>

definition wf_buffer :: "nat list \<Rightarrow> bool" where
  "wf_buffer buf = (length buf = 16 \<and> (\<forall>b \<in> set buf. b < 256))"

text \<open>
  \<open>parseId\<close> and \<open>createId\<close>. The timestamp is a \<open>number\<close> holding an integer, the random
  component a \<open>bigint\<close>; \<open>setBigUint64\<close> stores a \<open>bigint\<close> modulo \<open>2^64\<close>.
\<close>

definition parseId :: "int \<Rightarrow> int \<times> int" where
  "parseId ident =
    (let lo = ident AND (push_bit 64 1 - 1);
         hi = drop_bit 64 ident;
         buffer0 = replicate 16 0;
         buffer1 = setBigUint64 buffer0 0 (nat (lo mod 2 ^ 64));
         buffer2 = setBigUint64 buffer1 8 (nat (hi mod 2 ^ 64));
         timestampLo = getUint16 buffer2 10;
         timestampHi = getUint32 buffer2 12;
         timestampBig = int timestampLo OR push_bit 16 (int timestampHi);
         timestamp = timestampBig;
         randomLo = getBigUint64 buffer2 0;
         randomHi = getUint16 buffer2 8;
         random = int randomLo OR push_bit 64 (int randomHi)
     in (timestamp, random AND (push_bit 80 1 - 1)))"

definition createId :: "int \<Rightarrow> int \<Rightarrow> int" where
  "createId timestamp random =
    (let buffer0 = replicate 16 0;
         randomMasked = random AND (push_bit 80 1 - 1);
         randomLo = randomMasked AND (push_bit 64 1 - 1);
         randomHi = drop_bit 64 randomMasked;
         buffer1 = setBigUint64 buffer0 0 (nat (randomLo mod 2 ^ 64));
         buffer2 = setUint16 buffer1 8 (nat (randomHi mod 2 ^ 16));
         timestampBig = timestamp;
         timestampLo = timestampBig AND 0xFFFF;
         timestampHi = drop_bit 16 timestampBig AND 0xFFFFFFFF;
         buffer3 = setUint16 buffer2 10 (nat timestampLo);
         buffer4 = setUint32 buffer3 12 (nat timestampHi);
         lo = getBigUint64 buffer4 0;
         hi = getBigUint64 buffer4 8
     in push_bit 64 (int hi) OR int lo)"

definition isValidId :: "int \<Rightarrow> bool" where
  "isValidId ident = (ident > 0 \<and> ident < 2 ^ 128 - 1)"




section \<open>The 32-bit operators\<close>

lemma ToInt32_small: "- (2 ^ 31) \<le> x \<Longrightarrow> x < 2 ^ 31 \<Longrightarrow> ToInt32 x = x"
  unfolding ToInt32_def by (rule signed_take_bit_int_eq_self)

lemma bit_small_mask:
  fixes m :: int
  assumes "0 \<le> m" and "m < 2 ^ 31" and "bit m n"
  shows "n < 31"
proof -
  have "take_bit 31 m = m" using assms(1,2) by (simp add: take_bit_int_eq_self)
  then have "bit (take_bit 31 m) n" using assms(3) by simp
  then show ?thesis by (simp add: bit_take_bit_iff)
qed

text \<open>With a mask below \<open>2^31\<close>, \<open>x & m\<close> is \<open>x AND m\<close> whatever the number \<open>x\<close>.\<close>

lemma bitand32_mask:
  assumes "0 \<le> m" and "m < 2 ^ 31"
  shows "bitand32 x m = (x AND m)"
proof -
  have m: "ToInt32 m = m" using assms by (intro ToInt32_small) simp_all
  have "bit (signed_take_bit 31 x AND m) n \<longleftrightarrow> bit (x AND m) n" for n
    using bit_small_mask [OF assms, of n]
    by (auto simp add: bit_and_iff bit_signed_take_bit_iff min_def)
  then have "(signed_take_bit 31 x AND m) = (x AND m)"
    by (simp add: bit_eq_iff)
  then show ?thesis
    by (simp add: bitand32_def m) (simp add: ToInt32_def)
qed

lemma bitand32_bitnot32:
  assumes "0 \<le> m" and "m < 2 ^ 31"
  shows "bitand32 x (bitnot32 m) = (ToInt32 x AND NOT m)"
proof -
  have m: "ToInt32 m = m" using assms by (intro ToInt32_small) simp_all
  have "- (2 ^ 31) \<le> NOT m" "NOT m < 2 ^ 31"
    using assms by (simp_all add: not_int_def)
  then have "ToInt32 (NOT m) = NOT m" by (rule ToInt32_small)
  then show ?thesis by (simp add: bitand32_def bitnot32_def m)
qed

section \<open>Unfolding rules\<close>

lemmas flag_defs =
  AccountFlags_linked_def AccountFlags_debits_must_not_exceed_credits_def
  AccountFlags_credits_must_not_exceed_debits_def AccountFlags_history_def
  AccountFlags_imported_def AccountFlags_closed_def
  TransferFlags_linked_def TransferFlags_pending_def
  TransferFlags_post_pending_transfer_def TransferFlags_void_pending_transfer_def
  TransferFlags_balancing_debit_def TransferFlags_balancing_credit_def
  TransferFlags_closing_debit_def TransferFlags_closing_credit_def
  TransferFlags_imported_def

lemmas AE_defs =
  AE_ok_def AE_linked_event_failed_def AE_linked_event_chain_open_def
  AE_imported_event_expected_def AE_imported_event_not_expected_def
  AE_timestamp_must_be_zero_def AE_imported_event_timestamp_out_of_range_def
  AE_imported_event_timestamp_must_not_advance_def AE_reserved_field_def
  AE_reserved_flag_def AE_id_must_not_be_zero_def AE_id_must_not_be_int_max_def
  AE_exists_with_different_flags_def AE_exists_with_different_user_data_128_def
  AE_exists_with_different_user_data_64_def AE_exists_with_different_user_data_32_def
  AE_exists_with_different_ledger_def AE_exists_with_different_code_def AE_exists_def
  AE_flags_are_mutually_exclusive_def AE_debits_pending_must_be_zero_def
  AE_debits_posted_must_be_zero_def AE_credits_pending_must_be_zero_def
  AE_credits_posted_must_be_zero_def AE_ledger_must_not_be_zero_def
  AE_code_must_not_be_zero_def AE_imported_event_timestamp_must_not_regress_def

lemmas TE_defs =
  TE_ok_def TE_linked_event_failed_def TE_linked_event_chain_open_def
  TE_imported_event_expected_def TE_imported_event_not_expected_def
  TE_timestamp_must_be_zero_def TE_imported_event_timestamp_out_of_range_def
  TE_imported_event_timestamp_must_not_advance_def TE_reserved_flag_def
  TE_id_must_not_be_zero_def TE_id_must_not_be_int_max_def
  TE_exists_with_different_flags_def TE_exists_with_different_pending_id_def
  TE_exists_with_different_timeout_def TE_exists_with_different_debit_account_id_def
  TE_exists_with_different_credit_account_id_def TE_exists_with_different_amount_def
  TE_exists_with_different_user_data_128_def TE_exists_with_different_user_data_64_def
  TE_exists_with_different_user_data_32_def TE_exists_with_different_ledger_def
  TE_exists_with_different_code_def TE_exists_def TE_id_already_failed_def
  TE_flags_are_mutually_exclusive_def TE_debit_account_id_must_not_be_zero_def
  TE_debit_account_id_must_not_be_int_max_def TE_credit_account_id_must_not_be_zero_def
  TE_credit_account_id_must_not_be_int_max_def TE_accounts_must_be_different_def
  TE_pending_id_must_be_zero_def TE_pending_id_must_not_be_zero_def
  TE_pending_id_must_not_be_int_max_def TE_pending_id_must_be_different_def
  TE_timeout_reserved_for_pending_transfer_def TE_closing_transfer_must_be_pending_def
  TE_ledger_must_not_be_zero_def TE_code_must_not_be_zero_def
  TE_debit_account_not_found_def TE_credit_account_not_found_def
  TE_accounts_must_have_the_same_ledger_def
  TE_transfer_must_have_the_same_ledger_as_accounts_def TE_pending_transfer_not_found_def
  TE_pending_transfer_not_pending_def
  TE_pending_transfer_has_different_debit_account_id_def
  TE_pending_transfer_has_different_credit_account_id_def
  TE_pending_transfer_has_different_ledger_def TE_pending_transfer_has_different_code_def
  TE_exceeds_pending_transfer_amount_def TE_pending_transfer_has_different_amount_def
  TE_pending_transfer_already_posted_def TE_pending_transfer_already_voided_def
  TE_pending_transfer_expired_def TE_imported_event_timestamp_must_not_regress_def
  TE_imported_event_timestamp_must_postdate_debit_account_def
  TE_imported_event_timestamp_must_postdate_credit_account_def
  TE_imported_event_timeout_must_be_zero_def TE_debit_account_already_closed_def
  TE_credit_account_already_closed_def TE_overflows_debits_pending_def
  TE_overflows_credits_pending_def TE_overflows_debits_posted_def
  TE_overflows_credits_posted_def TE_overflows_debits_def TE_overflows_credits_def
  TE_overflows_timeout_def TE_exceeds_credits_def TE_exceeds_debits_def

lemmas status_defs =
  TransferPendingStatus_none_def TransferPendingStatus_pending_def
  TransferPendingStatus_posted_def TransferPendingStatus_voided_def
  TransferPendingStatus_expired_def

lemmas model_defs =
  createTransfers_def createTransfers_iteration_def createTransfers_commit_def
  loadPendingTransfer_def loadPendingStatus_def
  insertTransfer_def nextTimestamp_def or_undefined_def updateAccountBalances_def
  update_accounts_def update_pending_transfers_def recordAccountBalance_def
  lookupAccount_def lookupTransfer_def calculateBalancingAmount_def getMaxDebitAmount_def
  getMaxCreditAmount_def validateTransfer_def validateTransferExists_def
  validateTransferAccounts_def canDebitAccount_def canCreditAccount_def
  wouldOverflowAccount_def amount_max_def mk_account_def mk_transfer_def account0_def
  transfer0_def empty_db_def bitand32_bitnot32 ToInt32_def

section \<open>Field validation: verified properties\<close>

text \<open>
  C9. A transfer with amount zero that passes the id, timestamp, account-id and
  accounts-must-be-different checks is rejected by \<open>validateTransfer\<close> with the generic
  \<open>exists\<close> outcome, and \<open>createTransfers\<close> reports that outcome at the element's index
  without touching the database.
\<close>

theorem zero_amount_reported_as_exists:
  assumes "t_id t \<noteq> 0" and "t_id t < 2 ^ 128 - 1" and "t_timestamp t = 0"
    and "t_debit_account_id t \<noteq> 0" and "t_debit_account_id t < 2 ^ 128 - 1"
    and "t_credit_account_id t \<noteq> 0" and "t_credit_account_id t < 2 ^ 128 - 1"
    and "t_debit_account_id t \<noteq> t_credit_account_id t"
    and "t_amount t = 0"
  shows "validateTransfer t = TE_exists \<and> TE_exists \<noteq> TE_ok \<and>
         createTransfers_iteration now i t (db, errors, lastTimestamp) =
           (db, errors @ [(i, TE_exists)], lastTimestamp)"
proof -
  have v: "validateTransfer t = TE_exists"
    using assms by (simp add: validateTransfer_def)
  have d: "TE_exists \<noteq> TE_ok"
    by (simp add: TE_exists_def TE_ok_def)
  show ?thesis
    using v d by (simp add: createTransfers_iteration_def)
qed

theorem zero_amount_reported_as_exists_witness:
  "validateTransfer (mk_transfer 7 1 2 0 0) = TE_exists \<and>
   createTransfers_iteration (\<lambda>i. 0) 3 (mk_transfer 7 1 2 0 0) (empty_db, [], 0) =
     (empty_db, [(3, TE_exists)], 0)"
  using zero_amount_reported_as_exists [of "mk_transfer 7 1 2 0 0" "\<lambda>i. 0" 3 empty_db "[]" 0]
  by (simp add: mk_transfer_def transfer0_def)

text \<open>
  C5 (as amended). \<open>validateAccount\<close> returns the first violated rule in the order id zero,
  id reserved-max, timestamp, reserved field, ledger zero, code zero, balance fields, flag
  validity, flag mutual exclusion. \<open>validateTransfer\<close> returns the first violated rule in
  the order id zero, id reserved-max, timestamp, account ids zero or reserved-max,
  accounts-must-be-different, amount, ledger zero, code zero, flag validity, flag mutual
  exclusion, pending-id rules, timeout rules. Flag validity is the 32-bit test
  \<open>flags & ~validFlagsMask\<close> of the source. An account with id 0 and ledger 0 is reported
  as \<open>id_must_not_be_zero\<close>; a transfer that passes the id, timestamp and account-id checks,
  whose debit and credit account are the same and whose ledger is 0, is reported as
  \<open>accounts_must_be_different\<close>.
\<close>

theorem validators_return_first_violated_rule:
  "validateAccount a = first_violated account_rules AE_ok a \<and>
   validateTransfer t = first_violated transfer_rules TE_ok t \<and>
   (a_id a = 0 \<and> a_ledger a = 0 \<longrightarrow> validateAccount a = AE_id_must_not_be_zero) \<and>
   (t_id t \<noteq> 0 \<and> t_id t < 2 ^ 128 - 1 \<and> t_timestamp t = 0 \<and>
    t_debit_account_id t \<noteq> 0 \<and> t_debit_account_id t < 2 ^ 128 - 1 \<and>
    t_debit_account_id t = t_credit_account_id t \<and> t_ledger t = 0
      \<longrightarrow> validateTransfer t = TE_accounts_must_be_different)"
proof -
  have "validateAccount a = first_violated account_rules AE_ok a"
    by (simp add: validateAccount_def account_rules_def Let_def)
  moreover have "validateTransfer t = first_violated transfer_rules TE_ok t"
    by (simp add: validateTransfer_def transfer_rules_def is_pending_def is_post_or_void_def
        amount_max_def Let_def)
  moreover have "a_id a = 0 \<and> a_ledger a = 0 \<longrightarrow> validateAccount a = AE_id_must_not_be_zero"
    by (simp add: validateAccount_def)
  moreover have "t_id t \<noteq> 0 \<and> t_id t < 2 ^ 128 - 1 \<and> t_timestamp t = 0 \<and>
    t_debit_account_id t \<noteq> 0 \<and> t_debit_account_id t < 2 ^ 128 - 1 \<and>
    t_debit_account_id t = t_credit_account_id t \<and> t_ledger t = 0
      \<longrightarrow> validateTransfer t = TE_accounts_must_be_different"
    by (simp add: validateTransfer_def)
  ultimately show ?thesis by blast
qed

text \<open>
  The two cases of the claim, and the flag test at work: bit 32 of \<open>flags\<close> is not read
  (an account with flags \<open>2^32\<close> is valid, a transfer with flags \<open>2^32 + 4\<close> is a posting
  transfer and is asked for its \<open>pending_id\<close>), an undefined bit below is reserved.
\<close>

theorem validators_return_first_violated_rule_witness:
  "a_id account0 = 0 \<and> a_ledger account0 = 0 \<and>
   validateAccount account0 = AE_id_must_not_be_zero \<and>
   validateTransfer (transfer0\<lparr>t_id := 1, t_debit_account_id := 2, t_credit_account_id := 2,
       t_amount := 10, t_code := 1\<rparr>) = TE_accounts_must_be_different \<and>
   validateAccount (mk_account 1 (2 ^ 32)) = AE_ok \<and>
   validateAccount (mk_account 1 (2 ^ 32 + 6)) = AE_flags_are_mutually_exclusive \<and>
   validateAccount (mk_account 1 64) = AE_reserved_flag \<and>
   validateTransfer (mk_transfer 7 1 2 10 (2 ^ 32 + 4)) = TE_pending_id_must_not_be_zero \<and>
   validateTransfer (mk_transfer 7 1 2 10 512) = TE_reserved_flag"
proof -
  have flags: "validateAccount (mk_account 1 (2 ^ 32)) = AE_ok"
    "validateAccount (mk_account 1 (2 ^ 32 + 6)) = AE_flags_are_mutually_exclusive"
    "validateAccount (mk_account 1 64) = AE_reserved_flag"
    "validateTransfer (mk_transfer 7 1 2 10 (2 ^ 32 + 4)) = TE_pending_id_must_not_be_zero"
    "validateTransfer (mk_transfer 7 1 2 10 512) = TE_reserved_flag"
    by (simp_all add: validateAccount_def validateTransfer_def mk_account_def account0_def
        mk_transfer_def transfer0_def flag_defs amount_max_def bitand32_bitnot32 ToInt32_def)
  show ?thesis
    using validators_return_first_violated_rule [of account0
        "transfer0\<lparr>t_id := 1, t_debit_account_id := 2, t_credit_account_id := 2,
           t_amount := 10, t_code := 1\<rparr>"]
      flags
    by (simp add: account0_def transfer0_def)
qed

text \<open>
  The claim as written puts the relational rules last, so that a transfer with equal debit
  and credit account and ledger 0 would be reported as \<open>ledger_must_not_be_zero\<close>. The
  validator reports \<open>accounts_must_be_different\<close>.
\<close>

theorem relational_rule_precedes_ledger_counterexample:
  "validateTransfer (transfer0\<lparr>t_id := 1, t_debit_account_id := 2, t_credit_account_id := 2,
       t_amount := 10, t_code := 1\<rparr>) = TE_accounts_must_be_different \<and>
   TE_accounts_must_be_different \<noteq> TE_ledger_must_not_be_zero"
  by (simp add: validateTransfer_def transfer0_def TE_accounts_must_be_different_def
      TE_ledger_must_not_be_zero_def)

section \<open>Existence reconciliation: verified properties\<close>

text \<open>
  C6 (as amended). For accounts the reconciler compares flags, user\_data\_128,
  user\_data\_64, user\_data\_32, ledger, code, in this order. For transfers it compares
  flags, debit\_account\_id, credit\_account\_id, amount, pending\_id, user\_data\_128,
  user\_data\_64, user\_data\_32, timeout, ledger, code, in this order. The first field that
  differs decides the \<open>exists_with_different_...\<close> outcome; when all compared fields match
  the outcome is \<open>exists\<close>. A create request that passes field validation and whose id is
  already stored only adds that outcome at its index: the database is unchanged.
\<close>

theorem existence_reconciler_first_difference:
  "validateAccountExists existing new_account =
     first_difference account_exists_fields AE_exists existing new_account \<and>
   validateTransferExists existing_t new_transfer =
     first_difference transfer_exists_fields TE_exists existing_t new_transfer \<and>
   (a_flags existing = a_flags new_account \<and>
    a_user_data_128 existing = a_user_data_128 new_account \<and>
    a_user_data_64 existing = a_user_data_64 new_account \<and>
    a_user_data_32 existing = a_user_data_32 new_account \<and>
    a_ledger existing = a_ledger new_account \<and> a_code existing = a_code new_account
      \<longrightarrow> validateAccountExists existing new_account = AE_exists) \<and>
   (validateAccount new_account = AE_ok \<and>
    lookupAccount db (a_id new_account) = Some existing
      \<longrightarrow> createAccounts_iteration now i new_account (db, errors_a, lastTimestamp) =
            (db, errors_a @ [(i, validateAccountExists existing new_account)], lastTimestamp)) \<and>
   (validateTransfer new_transfer = TE_ok \<and>
    lookupTransfer db (t_id new_transfer) = Some existing_t
      \<longrightarrow> createTransfers_iteration now i new_transfer (db, errors_t, lastTimestamp) =
            (db, errors_t @ [(i, validateTransferExists existing_t new_transfer)],
             lastTimestamp))"
proof -
  have "validateAccountExists existing new_account =
     first_difference account_exists_fields AE_exists existing new_account"
    by (simp add: validateAccountExists_def account_exists_fields_def)
  moreover have "validateTransferExists existing_t new_transfer =
     first_difference transfer_exists_fields TE_exists existing_t new_transfer"
    by (simp add: validateTransferExists_def transfer_exists_fields_def)
  moreover have "a_flags existing = a_flags new_account \<and>
    a_user_data_128 existing = a_user_data_128 new_account \<and>
    a_user_data_64 existing = a_user_data_64 new_account \<and>
    a_user_data_32 existing = a_user_data_32 new_account \<and>
    a_ledger existing = a_ledger new_account \<and> a_code existing = a_code new_account
      \<longrightarrow> validateAccountExists existing new_account = AE_exists"
    by (simp add: validateAccountExists_def)
  moreover have "validateAccount new_account = AE_ok \<and>
    lookupAccount db (a_id new_account) = Some existing
      \<longrightarrow> createAccounts_iteration now i new_account (db, errors_a, lastTimestamp) =
            (db, errors_a @ [(i, validateAccountExists existing new_account)], lastTimestamp)"
    by (simp add: createAccounts_iteration_def)
  moreover have "validateTransfer new_transfer = TE_ok \<and>
    lookupTransfer db (t_id new_transfer) = Some existing_t
      \<longrightarrow> createTransfers_iteration now i new_transfer (db, errors_t, lastTimestamp) =
            (db, errors_t @ [(i, validateTransferExists existing_t new_transfer)],
             lastTimestamp)"
    by (simp add: createTransfers_iteration_def)
  ultimately show ?thesis by blast
qed

theorem existence_reconciler_first_difference_witness:
  "createAccounts_iteration (\<lambda>i. 0) 0 (mk_account 1 0) (db_with_duplicates, [], 0) =
     (db_with_duplicates, [(0, AE_exists)], 0) \<and>
   createTransfers_iteration (\<lambda>i. 0) 0 (mk_transfer 9 1 2 10 0) (db_with_duplicates, [], 0) =
     (db_with_duplicates, [(0, TE_exists)], 0)"
  using existence_reconciler_first_difference [of "(mk_account 1 0)\<lparr>a_timestamp := 5\<rparr>"
      "mk_account 1 0" "(mk_transfer 9 1 2 10 0)\<lparr>t_timestamp := 5\<rparr>" "mk_transfer 9 1 2 10 0"
      db_with_duplicates "\<lambda>i. 0" 0 "[]" 0 "[]"]
  by (simp add: db_with_duplicates_def mk_account_def account0_def mk_transfer_def
      transfer0_def empty_db_def lookupAccount_def lookupTransfer_def validateAccount_def
      validateTransfer_def validateAccountExists_def validateTransferExists_def flag_defs
      amount_max_def AE_defs TE_defs bitand32_bitnot32 ToInt32_def)

text \<open>
  Read as one sequence, the order of the claim compares user\_data\_128 before
  debit\_account\_id. On two transfers that differ in both, the reconciler reports the
  debit account.
\<close>

theorem transfer_exists_order_counterexample:
  "validateTransferExists (mk_transfer 9 1 2 10 0)
     ((mk_transfer 9 3 2 10 0)\<lparr>t_user_data_128 := 77\<rparr>) =
       TE_exists_with_different_debit_account_id \<and>
   first_difference transfer_exists_fields_spec TE_exists (mk_transfer 9 1 2 10 0)
     ((mk_transfer 9 3 2 10 0)\<lparr>t_user_data_128 := 77\<rparr>) =
       TE_exists_with_different_user_data_128 \<and>
   TE_exists_with_different_debit_account_id \<noteq> TE_exists_with_different_user_data_128"
  by (simp add: validateTransferExists_def transfer_exists_fields_spec_def mk_transfer_def
      transfer0_def TE_exists_with_different_debit_account_id_def
      TE_exists_with_different_user_data_128_def)


section \<open>create\_transfers: what can be reported\<close>





lemma commit_errors:
  "(\<exists>db' l'. createTransfers_commit now i t d c p s (db, errors, l) = (db', errors, l')) \<or>
   (\<exists>e. reportable e \<and>
        createTransfers_commit now i t d c p s (db, errors, l) = (db, errors @ [(i, e)], l))"
proof -
  let ?v = "validateTransferAccounts t d c p (or_undefined s)"
  have rv: "reportable ?v" unfolding reportable_def by blast
  show ?thesis
  proof (cases "?v = TE_ok")
    case False
    then have "createTransfers_commit now i t d c p s (db, errors, l) = (db, errors @ [(i, ?v)], l)"
      by (simp add: createTransfers_commit_def)
    then show ?thesis using rv by blast
  next
    case True
    note v = this
    show ?thesis
    proof (cases d)
      case None
      then show ?thesis using v by (simp add: createTransfers_commit_def)
    next
      case (Some dd)
      note d = this
      show ?thesis
      proof (cases c)
        case None
        then show ?thesis using v d by (simp add: createTransfers_commit_def)
      next
        case (Some cc)
        note c = this
        let ?da = "if (t_flags t AND TransferFlags_pending) \<noteq> 0 then 0 else t_amount t"
        show ?thesis
        proof (cases "wouldOverflowAccount dd ?da 0")
          case (Some e)
          then have "reportable e" unfolding reportable_def by blast
          moreover have "createTransfers_commit now i t d c p s (db, errors, l) =
              (db, errors @ [(i, e)], l)"
            using v d c Some by (simp add: createTransfers_commit_def Let_def)
          ultimately show ?thesis by blast
        next
          case None
          note n1 = this
          show ?thesis
          proof (cases "wouldOverflowAccount cc 0 ?da")
            case (Some e)
            then have "reportable e" unfolding reportable_def by blast
            moreover have "createTransfers_commit now i t d c p s (db, errors, l) =
                (db, errors @ [(i, e)], l)"
              using v d c n1 Some by (simp add: createTransfers_commit_def Let_def)
            ultimately show ?thesis by blast
          next
            case None
            then have "createTransfers_commit now i t d c p s (db, errors, l) =
                (insertTransfer (t\<lparr>t_timestamp := nextTimestamp now i l\<rparr>) db, errors,
                 nextTimestamp now i l)"
              using v d c n1 by (simp add: createTransfers_commit_def Let_def)
            then show ?thesis by blast
          qed
        qed
      qed
    qed
  qed
qed



lemma iteration_errors:
  "(\<exists>db' l'. createTransfers_iteration now i t (db, errors, l) = (db', errors, l')) \<or>
   (\<exists>e. reportable e \<and>
        createTransfers_iteration now i t (db, errors, l) = (db, errors @ [(i, e)], l))"
proof (cases "validateTransfer t = TE_ok")
  case False
  have "reportable (validateTransfer t)" unfolding reportable_def by blast
  moreover have "createTransfers_iteration now i t (db, errors, l) =
      (db, errors @ [(i, validateTransfer t)], l)"
    using False by (simp add: createTransfers_iteration_def)
  ultimately show ?thesis by blast
next
  case True
  note v = this
  show ?thesis
  proof (cases "lookupTransfer db (t_id t)")
    case (Some x)
    have "reportable (validateTransferExists x t)" unfolding reportable_def by blast
    moreover have "createTransfers_iteration now i t (db, errors, l) =
        (db, errors @ [(i, validateTransferExists x t)], l)"
      using v Some by (simp add: createTransfers_iteration_def)
    ultimately show ?thesis by blast
  next
    case None
    let ?d = "lookupAccount db (t_debit_account_id t)"
    let ?c = "lookupAccount db (t_credit_account_id t)"
    obtain p s where
      it: "createTransfers_iteration now i t (db, errors, l) =
        (if (t_flags t AND (TransferFlags_balancing_debit OR TransferFlags_balancing_credit)) \<noteq> 0
         then (case (?d, ?c) of
                 (Some debitAcc, Some creditAcc) \<Rightarrow>
                   (let clampedAmount = calculateBalancingAmount t debitAcc creditAcc in
                    if clampedAmount = 0 then (db, errors, l)
                    else createTransfers_commit now i (t\<lparr>t_amount := clampedAmount\<rparr>)
                           ?d ?c p s (db, errors, l))
               | _ \<Rightarrow> createTransfers_commit now i t ?d ?c p s (db, errors, l))
         else createTransfers_commit now i t ?d ?c p s (db, errors, l))"
      using v None by (simp add: createTransfers_iteration_def Let_def)
    show ?thesis
      unfolding it
      using commit_errors [of now i t ?d ?c p s db errors l]
        commit_errors [of now i "t\<lparr>t_amount := calculateBalancingAmount t (the ?d) (the ?c)\<rparr>"
          ?d ?c p s db errors l]
      by (cases ?d; cases ?c; simp add: Let_def; blast)
  qed
qed

lemma loop_errors:
  assumes "\<And>e. reportable e \<Longrightarrow> P e"
  shows "(\<forall>(j, e) \<in> set errors. P e) \<Longrightarrow>
         \<forall>(j, e) \<in> set (fst (snd (createTransfers_loop now i ts (db, errors, l)))). P e"
proof (induction ts arbitrary: i db errors l)
  case Nil
  then show ?case by simp
next
  case (Cons t ts)
  from iteration_errors [of now i t db errors l]
  show ?case
  proof
    assume "\<exists>db' l'. createTransfers_iteration now i t (db, errors, l) = (db', errors, l')"
    then obtain db' l' where
      "createTransfers_iteration now i t (db, errors, l) = (db', errors, l')" by blast
    then show ?thesis using Cons.IH [of errors "Suc i" db' l'] Cons.prems by simp
  next
    assume "\<exists>e. reportable e \<and>
        createTransfers_iteration now i t (db, errors, l) = (db, errors @ [(i, e)], l)"
    then obtain e where e: "reportable e"
      "createTransfers_iteration now i t (db, errors, l) = (db, errors @ [(i, e)], l)" by blast
    have "\<forall>(j, e) \<in> set (errors @ [(i, e)]). P e"
      using Cons.prems assms [OF e(1)] by auto
    then show ?thesis using Cons.IH [of "errors @ [(i, e)]" "Suc i" db l] e(2) by simp
  qed
qed

lemma createTransfers_errors:
  assumes "\<And>e. reportable e \<Longrightarrow> P e"
  shows "\<forall>(j, e) \<in> set (fst (createTransfers now ts db)). P e"
proof -
  have "\<forall>(j, e) \<in> set (fst (snd (createTransfers_loop now 0 ts (db, [], 0)))). P e"
    by (rule loop_errors [OF assms]) simp_all
  then show ?thesis
    by (simp add: createTransfers_def split: prod.splits)
qed

lemma accounts_update_pending_transfers [simp]:
  "accounts (update_pending_transfers i f db) = accounts db"
  by (simp add: update_pending_transfers_def split: option.splits)

lemma accounts_recordAccountBalance [simp]:
  "accounts (recordAccountBalance a ts db) = accounts db"
  by (simp add: recordAccountBalance_def split: option.splits)

lemma iteration_not_balancing:
  assumes "validateTransfer t = TE_ok" and "lookupTransfer db (t_id t) = None"
    and "(t_flags t AND (TransferFlags_balancing_debit OR TransferFlags_balancing_credit)) = 0"
  shows "createTransfers_iteration now i t (db, errors, l) =
     createTransfers_commit now i t (lookupAccount db (t_debit_account_id t))
       (lookupAccount db (t_credit_account_id t)) (loadPendingTransfer db t)
       (loadPendingStatus db t) (db, errors, l)"
  using assms by (simp add: createTransfers_iteration_def)

lemma transfers_update_accounts [simp]:
  "transfers (update_accounts i f db) = transfers db"
  by (simp add: update_accounts_def split: option.splits)

lemma transfers_update_pending_transfers [simp]:
  "transfers (update_pending_transfers i f db) = transfers db"
  by (simp add: update_pending_transfers_def split: option.splits)

lemma transfers_recordAccountBalance [simp]:
  "transfers (recordAccountBalance a ts db) = transfers db"
  by (simp add: recordAccountBalance_def split: option.splits)

lemma transfers_updateAccountBalances [simp]:
  "transfers (updateAccountBalances t db) = transfers db"
  by (simp add: updateAccountBalances_def Let_def split: option.splits)



section \<open>Overflow of the pending totals\<close>





section \<open>The overflow boundary\<close>

lemma and_or_eq_0_iff:
  "(f AND (a OR b)) = 0 \<longleftrightarrow> (f AND a) = 0 \<and> (f AND b) = (0::int)"
  by (simp add: bit.conj_disj_distrib or_eq_0_iff)












section \<open>Balancing transfers\<close>

lemma calculateBalancingAmount_debit:
  assumes "(t_flags t AND TransferFlags_balancing_debit) \<noteq> 0"
  shows "calculateBalancingAmount t D C =
    min (t_amount t)
      (if (a_flags D AND AccountFlags_debits_must_not_exceed_credits) \<noteq> 0
       then max 0 (a_credits_posted D - a_debits_posted D) else 2 ^ 63 - 1)"
  using assms
  by (simp add: calculateBalancingAmount_def getMaxDebitAmount_def Let_def min_def max_def)

lemma calculateBalancingAmount_credit:
  assumes "(t_flags t AND TransferFlags_balancing_debit) = 0"
    and "(t_flags t AND TransferFlags_balancing_credit) \<noteq> 0"
  shows "calculateBalancingAmount t D C =
    min (t_amount t)
      (if (a_flags C AND AccountFlags_credits_must_not_exceed_debits) \<noteq> 0
       then max 0 (a_debits_posted C - a_credits_posted C) else 2 ^ 63 - 1)"
  using assms
  by (simp add: calculateBalancingAmount_def getMaxCreditAmount_def Let_def min_def max_def)

lemma iteration_balancing:
  assumes "validateTransfer t = TE_ok" and "lookupTransfer db (t_id t) = None"
    and "lookupAccount db (t_debit_account_id t) = Some D"
    and "lookupAccount db (t_credit_account_id t) = Some C"
    and "(t_flags t AND TransferFlags_balancing_debit) \<noteq> 0 \<or>
         (t_flags t AND TransferFlags_balancing_credit) \<noteq> 0"
  shows "createTransfers_iteration now i t (db, errors, l) =
    (if calculateBalancingAmount t D C = 0 then (db, errors, l)
     else createTransfers_commit now i (t\<lparr>t_amount := calculateBalancingAmount t D C\<rparr>)
            (Some D) (Some C) (loadPendingTransfer db t) (loadPendingStatus db t)
            (db, errors, l))"
proof -
  have "(t_flags t AND (TransferFlags_balancing_debit OR TransferFlags_balancing_credit)) \<noteq> 0"
    using assms(5) by (simp add: and_or_eq_0_iff)
  then show ?thesis
    using assms(1-4) by (simp add: createTransfers_iteration_def Let_def)
qed

text \<open>
  C1 (as amended). For a request that passes field validation, whose id is not stored yet
  and whose two accounts exist: with \<open>balancing_debit\<close> the amount is replaced by
  \<open>min amount capacity\<close>, where the capacity is \<open>max 0 (credits_posted - debits_posted)\<close>
  of the debit account when that account has \<open>debits_must_not_exceed_credits\<close>, and
  \<open>2^63 - 1\<close> otherwise; with \<open>balancing_credit\<close> (and not \<open>balancing_debit\<close>) the same
  holds for the credit account, \<open>credits_must_not_exceed_debits\<close> and
  \<open>max 0 (debits_posted - credits_posted)\<close>. When the resolved amount is zero the element
  is skipped: no entry in \<open>errors\<close>, no change of the database. Otherwise the rest of the
  loop body runs on the request with the resolved amount.
\<close>

theorem balancing_amount_resolution:
  "validateTransfer t = TE_ok \<and> lookupTransfer db (t_id t) = None \<and>
   lookupAccount db (t_debit_account_id t) = Some D \<and>
   lookupAccount db (t_credit_account_id t) = Some C
   \<longrightarrow>
     ((t_flags t AND TransferFlags_balancing_debit) \<noteq> 0 \<longrightarrow>
        createTransfers_iteration now i t (db, errors, l) =
          (let capacity =
                 (if (a_flags D AND AccountFlags_debits_must_not_exceed_credits) \<noteq> 0
                  then max 0 (a_credits_posted D - a_debits_posted D) else 2 ^ 63 - 1);
               resolved = min (t_amount t) capacity
           in if resolved = 0 then (db, errors, l)
              else createTransfers_commit now i (t\<lparr>t_amount := resolved\<rparr>) (Some D) (Some C)
                     (loadPendingTransfer db t) (loadPendingStatus db t) (db, errors, l))) \<and>
     ((t_flags t AND TransferFlags_balancing_debit) = 0 \<and>
      (t_flags t AND TransferFlags_balancing_credit) \<noteq> 0 \<longrightarrow>
        createTransfers_iteration now i t (db, errors, l) =
          (let capacity =
                 (if (a_flags C AND AccountFlags_credits_must_not_exceed_debits) \<noteq> 0
                  then max 0 (a_debits_posted C - a_credits_posted C) else 2 ^ 63 - 1);
               resolved = min (t_amount t) capacity
           in if resolved = 0 then (db, errors, l)
              else createTransfers_commit now i (t\<lparr>t_amount := resolved\<rparr>) (Some D) (Some C)
                     (loadPendingTransfer db t) (loadPendingStatus db t) (db, errors, l)))"
proof (intro impI conjI)
  assume pre: "validateTransfer t = TE_ok \<and> lookupTransfer db (t_id t) = None \<and>
   lookupAccount db (t_debit_account_id t) = Some D \<and>
   lookupAccount db (t_credit_account_id t) = Some C"
    and bd: "(t_flags t AND TransferFlags_balancing_debit) \<noteq> 0"
  from pre have v: "validateTransfer t = TE_ok" and f: "lookupTransfer db (t_id t) = None"
    and d: "lookupAccount db (t_debit_account_id t) = Some D"
    and c: "lookupAccount db (t_credit_account_id t) = Some C"
    by blast+
  show "createTransfers_iteration now i t (db, errors, l) =
          (let capacity =
                 (if (a_flags D AND AccountFlags_debits_must_not_exceed_credits) \<noteq> 0
                  then max 0 (a_credits_posted D - a_debits_posted D) else 2 ^ 63 - 1);
               resolved = min (t_amount t) capacity
           in if resolved = 0 then (db, errors, l)
              else createTransfers_commit now i (t\<lparr>t_amount := resolved\<rparr>) (Some D) (Some C)
                     (loadPendingTransfer db t) (loadPendingStatus db t) (db, errors, l))"
    using iteration_balancing [OF v f d c, of now i errors l] bd
      calculateBalancingAmount_debit [OF bd, of D C]
    by (simp add: Let_def)
next
  assume pre: "validateTransfer t = TE_ok \<and> lookupTransfer db (t_id t) = None \<and>
   lookupAccount db (t_debit_account_id t) = Some D \<and>
   lookupAccount db (t_credit_account_id t) = Some C"
    and bc: "(t_flags t AND TransferFlags_balancing_debit) = 0 \<and>
      (t_flags t AND TransferFlags_balancing_credit) \<noteq> 0"
  from pre have v: "validateTransfer t = TE_ok" and f: "lookupTransfer db (t_id t) = None"
    and d: "lookupAccount db (t_debit_account_id t) = Some D"
    and c: "lookupAccount db (t_credit_account_id t) = Some C"
    by blast+
  from bc have b1: "(t_flags t AND TransferFlags_balancing_debit) = 0"
    and b2: "(t_flags t AND TransferFlags_balancing_credit) \<noteq> 0" by blast+
  show "createTransfers_iteration now i t (db, errors, l) =
          (let capacity =
                 (if (a_flags C AND AccountFlags_credits_must_not_exceed_debits) \<noteq> 0
                  then max 0 (a_debits_posted C - a_credits_posted C) else 2 ^ 63 - 1);
               resolved = min (t_amount t) capacity
           in if resolved = 0 then (db, errors, l)
              else createTransfers_commit now i (t\<lparr>t_amount := resolved\<rparr>) (Some D) (Some C)
                     (loadPendingTransfer db t) (loadPendingStatus db t) (db, errors, l))"
    using iteration_balancing [OF v f d c, of now i errors l] b2
      calculateBalancingAmount_credit [OF b1 b2, of D C]
    by (simp add: Let_def)
qed

text \<open>
  The scenario: account 1 is seeded with 1000 credits by a plain transfer, then a
  \<open>balancing_debit\<close> transfer asks for 2000 out of it. Both succeed and 1000 is posted.
\<close>

lemma ev_scenario:
  "fst (createTransfers (\<lambda>i. 0)
      [mk_transfer 20 2 1 1000 0, mk_transfer 21 1 3 2000 TransferFlags_balancing_debit]
      db_seed) = []"
  "map_option t_amount (transfers (snd (createTransfers (\<lambda>i. 0)
      [mk_transfer 20 2 1 1000 0, mk_transfer 21 1 3 2000 TransferFlags_balancing_debit]
      db_seed)) 21) = Some 1000"
  "map_option a_debits_posted (accounts (snd (createTransfers (\<lambda>i. 0)
      [mk_transfer 20 2 1 1000 0, mk_transfer 21 1 3 2000 TransferFlags_balancing_debit]
      db_seed)) 1) = Some 1000"
  "map_option a_credits_posted (accounts (snd (createTransfers (\<lambda>i. 0)
      [mk_transfer 20 2 1 1000 0, mk_transfer 21 1 3 2000 TransferFlags_balancing_debit]
      db_seed)) 3) = Some 1000"
  by (simp_all add: model_defs db_seed_def flag_defs TE_defs Let_def)

theorem balancing_amount_resolution_witness:
  "createTransfers_iteration (\<lambda>i. 0) 0
      (mk_transfer 21 1 3 2000 TransferFlags_balancing_debit) (db_seeded, [], 0) =
     createTransfers_commit (\<lambda>i. 0) 0 (mk_transfer 21 1 3 1000 TransferFlags_balancing_debit)
       (Some ((mk_account 1 AccountFlags_debits_must_not_exceed_credits)
                \<lparr>a_credits_posted := 1000\<rparr>))
       (Some (mk_account 3 0)) None None (db_seeded, [], 0) \<and>
   createTransfers_iteration (\<lambda>i. 0) 0
      (mk_transfer 21 1 3 2000 TransferFlags_balancing_debit) (db_seed, [], 0) =
     (db_seed, [], 0) \<and>
   createTransfers_iteration (\<lambda>i. 0) 0
      (mk_transfer 22 3 2 500 TransferFlags_balancing_credit) (db_seed, [], 0) =
     createTransfers_commit (\<lambda>i. 0) 0 (mk_transfer 22 3 2 500 TransferFlags_balancing_credit)
       (Some (mk_account 3 0)) (Some (mk_account 2 0)) None None (db_seed, [], 0) \<and>
   fst (createTransfers (\<lambda>i. 0)
      [mk_transfer 20 2 1 1000 0, mk_transfer 21 1 3 2000 TransferFlags_balancing_debit]
      db_seed) = [] \<and>
   map_option t_amount (transfers (snd (createTransfers (\<lambda>i. 0)
      [mk_transfer 20 2 1 1000 0, mk_transfer 21 1 3 2000 TransferFlags_balancing_debit]
      db_seed)) 21) = Some 1000 \<and>
   map_option a_debits_posted (accounts (snd (createTransfers (\<lambda>i. 0)
      [mk_transfer 20 2 1 1000 0, mk_transfer 21 1 3 2000 TransferFlags_balancing_debit]
      db_seed)) 1) = Some 1000"
proof -
  let ?X = "mk_account 1 AccountFlags_debits_must_not_exceed_credits"
  let ?X1 = "?X\<lparr>a_credits_posted := 1000\<rparr>"
  let ?t = "mk_transfer 21 1 3 2000 TransferFlags_balancing_debit"
  let ?u = "mk_transfer 22 3 2 500 TransferFlags_balancing_credit"
  have pre1: "validateTransfer ?t = TE_ok \<and> lookupTransfer db_seeded (t_id ?t) = None \<and>
      lookupAccount db_seeded (t_debit_account_id ?t) = Some ?X1 \<and>
      lookupAccount db_seeded (t_credit_account_id ?t) = Some (mk_account 3 0)"
    by (simp add: model_defs db_seeded_def flag_defs TE_defs)
  have pre2: "validateTransfer ?t = TE_ok \<and> lookupTransfer db_seed (t_id ?t) = None \<and>
      lookupAccount db_seed (t_debit_account_id ?t) = Some ?X \<and>
      lookupAccount db_seed (t_credit_account_id ?t) = Some (mk_account 3 0)"
    by (simp add: model_defs db_seed_def flag_defs TE_defs)
  have pre3: "validateTransfer ?u = TE_ok \<and> lookupTransfer db_seed (t_id ?u) = None \<and>
      lookupAccount db_seed (t_debit_account_id ?u) = Some (mk_account 3 0) \<and>
      lookupAccount db_seed (t_credit_account_id ?u) = Some (mk_account 2 0)"
    by (simp add: model_defs db_seed_def flag_defs TE_defs)
  have fl: "(t_flags ?t AND TransferFlags_balancing_debit) \<noteq> 0"
    "(t_flags ?u AND TransferFlags_balancing_debit) = 0"
    "(t_flags ?u AND TransferFlags_balancing_credit) \<noteq> 0"
    by (simp_all add: mk_transfer_def transfer0_def flag_defs)
  have ld: "loadPendingTransfer db_seeded ?t = None" "loadPendingStatus db_seeded ?t = None"
    "loadPendingTransfer db_seed ?u = None" "loadPendingStatus db_seed ?u = None"
    by (simp_all add: loadPendingTransfer_def loadPendingStatus_def mk_transfer_def
        transfer0_def flag_defs)
  have amt: "?t\<lparr>t_amount := 1000\<rparr> = mk_transfer 21 1 3 1000 TransferFlags_balancing_debit"
    "?u\<lparr>t_amount := 500\<rparr> = ?u"
    by (simp_all add: mk_transfer_def transfer0_def)
  have cap: "a_flags ?X1 = 2" "a_credits_posted ?X1 = 1000" "a_debits_posted ?X1 = 0"
    "a_flags ?X = 2" "a_credits_posted ?X = 0" "a_debits_posted ?X = 0"
    "a_flags (mk_account 2 0) = 0" "t_amount ?t = 2000" "t_amount ?u = 500"
    by (simp_all add: mk_account_def account0_def mk_transfer_def transfer0_def flag_defs)
  have s1: "createTransfers_iteration (\<lambda>i. 0) 0 ?t (db_seeded, [], 0) =
     createTransfers_commit (\<lambda>i. 0) 0 (mk_transfer 21 1 3 1000 TransferFlags_balancing_debit)
       (Some ?X1) (Some (mk_account 3 0)) None None (db_seeded, [], 0)"
    using balancing_amount_resolution [of ?t db_seeded ?X1 "mk_account 3 0" "\<lambda>i. 0" 0 "[]" 0]
      pre1 fl ld amt cap
    by (simp add: AccountFlags_debits_must_not_exceed_credits_def)
  have s2: "createTransfers_iteration (\<lambda>i. 0) 0 ?t (db_seed, [], 0) = (db_seed, [], 0)"
    using balancing_amount_resolution [of ?t db_seed ?X "mk_account 3 0" "\<lambda>i. 0" 0 "[]" 0]
      pre2 fl cap
    by (simp add: AccountFlags_debits_must_not_exceed_credits_def)
  have s3: "createTransfers_iteration (\<lambda>i. 0) 0 ?u (db_seed, [], 0) =
     createTransfers_commit (\<lambda>i. 0) 0 ?u
       (Some (mk_account 3 0)) (Some (mk_account 2 0)) None None (db_seed, [], 0)"
    using balancing_amount_resolution [of ?u db_seed "mk_account 3 0" "mk_account 2 0"
        "\<lambda>i. 0" 0 "[]" 0]
      pre3 fl ld amt cap
    by (simp add: AccountFlags_credits_must_not_exceed_debits_def)
  show ?thesis
    using s1 s2 s3 ev_scenario by simp
qed

text \<open>
  The claim as written leaves an account without constraint flag unclamped. A
  \<open>balancing_debit\<close> request of \<open>2^63\<close> out of such an account is stored with amount
  \<open>2^63 - 1\<close>.
\<close>

theorem unconstrained_capacity_counterexample:
  "fst (createTransfers (\<lambda>i. 0)
      [mk_transfer 21 2 3 (2 ^ 63) TransferFlags_balancing_debit] db_seed) = [] \<and>
   a_flags (mk_account 2 0) = 0 \<and>
   map_option t_amount (transfers (snd (createTransfers (\<lambda>i. 0)
      [mk_transfer 21 2 3 (2 ^ 63) TransferFlags_balancing_debit] db_seed)) 21) =
     Some (2 ^ 63 - 1)"
  by (simp add: model_defs db_seed_def flag_defs TE_defs Let_def)

section \<open>Linked transfers\<close>

lemma validateTransferAccounts_not_linked:
  "validateTransferAccounts t d c p s \<noteq> TE_linked_event_failed \<and>
   validateTransferAccounts t d c p s \<noteq> TE_linked_event_chain_open"
proof (cases d)
  case None
  then show ?thesis by (simp add: validateTransferAccounts_def TE_defs)
next
  case (Some dd)
  note d = this
  show ?thesis
  proof (cases c)
    case None
    then show ?thesis using d by (simp add: validateTransferAccounts_def TE_defs)
  next
    case (Some cc)
    show ?thesis
    proof (cases p)
      case None
      then show ?thesis using d Some
        by (simp add: validateTransferAccounts_def TE_defs)
    next
      case (Some pp)
      then show ?thesis using d \<open>c = Some cc\<close>
        by (simp add: validateTransferAccounts_def TE_defs)
    qed
  qed
qed

lemma reportable_not_linked:
  assumes "reportable e"
  shows "e \<noteq> TE_linked_event_failed \<and> e \<noteq> TE_linked_event_chain_open"
  using assms unfolding reportable_def
proof (elim disjE exE)
  fix t assume "e = validateTransfer t"
  then show ?thesis by (simp add: validateTransfer_def TE_defs Let_def)
next
  fix x t assume "e = validateTransferExists x t"
  then show ?thesis by (simp add: validateTransferExists_def TE_defs)
next
  fix t d c p s assume "e = validateTransferAccounts t d c p s"
  then show ?thesis using validateTransferAccounts_not_linked [of t d c p s] by simp
next
  fix a x y assume "wouldOverflowAccount a x y = Some e"
  then show ?thesis
    by (auto simp add: wouldOverflowAccount_def TE_defs Let_def split: if_splits)
qed

text \<open>
  Whatever the batch and the database, \<open>createTransfers\<close> reports neither
  \<open>linked_event_failed\<close> nor \<open>linked_event_chain_open\<close>.
\<close>

lemma linked_outcomes_never_reported:
  "\<forall>(j, e) \<in> set (fst (createTransfers now ts db)).
      e \<noteq> TE_linked_event_failed \<and> e \<noteq> TE_linked_event_chain_open"
  by (rule createTransfers_errors) (rule reportable_not_linked)

text \<open>
  C2. The claim asks for atomic chains of linked transfers. The loop body of
  \<open>createTransfers\<close> never reads the \<open>linked\<close> flag: in a batch whose first transfer is
  linked and valid and whose second, closing the chain, fails (its debit account 9 does not
  exist), the first transfer is inserted and its balances are applied, and the only entry
  of \<open>errors\<close> is \<open>debit_account_not_found\<close> at index 1. A batch that ends with an open
  chain is accepted without any entry.
\<close>

theorem linked_chain_is_not_atomic:
  "fst (createTransfers (\<lambda>i. 0)
      [mk_transfer 30 2 3 100 TransferFlags_linked, mk_transfer 31 9 3 50 0] db_seed) =
     [(1, TE_debit_account_not_found)] \<and>
   map_option t_amount (transfers (snd (createTransfers (\<lambda>i. 0)
      [mk_transfer 30 2 3 100 TransferFlags_linked, mk_transfer 31 9 3 50 0] db_seed)) 30) =
     Some 100 \<and>
   map_option a_debits_posted (accounts (snd (createTransfers (\<lambda>i. 0)
      [mk_transfer 30 2 3 100 TransferFlags_linked, mk_transfer 31 9 3 50 0] db_seed)) 2) =
     Some 100 \<and>
   TE_debit_account_not_found \<noteq> TE_linked_event_failed \<and>
   fst (createTransfers (\<lambda>i. 0) [mk_transfer 30 2 3 100 TransferFlags_linked] db_seed) = [] \<and>
   map_option t_amount (transfers (snd (createTransfers (\<lambda>i. 0)
      [mk_transfer 30 2 3 100 TransferFlags_linked] db_seed)) 30) = Some 100"
  by (simp add: model_defs db_seed_def flag_defs TE_defs Let_def)

section \<open>Posting and voiding a pending transfer\<close>

lemma validateTransferAccounts_pending_None:
  assumes "a_ledger D = a_ledger C" and "t_ledger t = a_ledger D"
    and "(a_flags D AND AccountFlags_closed) = 0" and "(a_flags C AND AccountFlags_closed) = 0"
    and "is_post_or_void t"
  shows "validateTransferAccounts t (Some D) (Some C) None s = TE_pending_transfer_not_found"
  using assms by (simp add: validateTransferAccounts_def is_post_or_void_def)

lemma validateTransferAccounts_pending_Some:
  assumes "a_ledger D = a_ledger C" and "t_ledger t = a_ledger D"
    and "(a_flags D AND AccountFlags_closed) = 0" and "(a_flags C AND AccountFlags_closed) = 0"
    and "is_post_or_void t"
  shows "validateTransferAccounts t (Some D) (Some C) (Some P) s =
    (if s \<noteq> Some TransferPendingStatus_pending then TE_pending_transfer_not_pending
     else if t_debit_account_id P \<noteq> t_debit_account_id t
       then TE_pending_transfer_has_different_debit_account_id
     else if t_credit_account_id P \<noteq> t_credit_account_id t
       then TE_pending_transfer_has_different_credit_account_id
     else if t_ledger P \<noteq> t_ledger t then TE_pending_transfer_has_different_ledger
     else if t_code P \<noteq> t_code t then TE_pending_transfer_has_different_code
     else if (t_flags t AND TransferFlags_post_pending_transfer) \<noteq> 0 then
       (if t_amount t > t_amount P then TE_exceeds_pending_transfer_amount
        else balance_check t D C)
     else if (t_flags t AND TransferFlags_void_pending_transfer) \<noteq> 0 then
       (if t_amount t \<noteq> t_amount P then TE_pending_transfer_has_different_amount
        else balance_check t D C)
     else balance_check t D C)"
  using assms
  by (simp add: validateTransferAccounts_def is_post_or_void_def balance_check_def
      TransferPendingStatus_pending_def)

lemma commit_rejected:
  assumes "validateTransferAccounts t d c p (or_undefined s) = e" and "e \<noteq> TE_ok"
  shows "createTransfers_commit now i t d c p s (db, errors, l) = (db, errors @ [(i, e)], l)"
  using assms by (simp add: createTransfers_commit_def)

lemma or_undefined_pending:
  "or_undefined s = Some TransferPendingStatus_pending \<longleftrightarrow>
   s = Some TransferPendingStatus_pending"
  by (simp add: or_undefined_def TransferPendingStatus_pending_def split: option.splits)


lemma pending_rejected:
  assumes v: "validateTransfer t = TE_ok" and f: "lookupTransfer db (t_id t) = None"
    and nb: "(t_flags t AND (TransferFlags_balancing_debit OR TransferFlags_balancing_credit)) = 0"
    and d: "lookupAccount db (t_debit_account_id t) = Some D"
    and c: "lookupAccount db (t_credit_account_id t) = Some C"
    and va: "validateTransferAccounts t (Some D) (Some C) (loadPendingTransfer db t)
               (or_undefined (loadPendingStatus db t)) = e"
    and e: "e \<noteq> TE_ok"
  shows "rejected_with e now i t (db, errors, l)"
  using iteration_not_balancing [OF v f nb, of now i errors l] d c
    commit_rejected [OF va e, of now i db errors l]
  by (simp add: rejected_with_def)

lemma load_pending:
  assumes "is_post_or_void t"
  shows "loadPendingTransfer db t = lookupTransfer db (t_pending_id t)"
    and "lookupTransfer db (t_pending_id t) = Some P \<Longrightarrow>
         loadPendingStatus db t = map_option p_status (pending_transfers db (t_pending_id t))"
  using assms
  by (simp_all add: loadPendingTransfer_def loadPendingStatus_def is_post_or_void_def
      split: option.splits)

text \<open>
  C4 (as amended). For a posting or voiding request that passes field validation, whose
  own id is not stored yet, that carries no balancing flag, and whose two accounts exist,
  share one ledger with the transfer and are not closed: it is rejected with
  \<open>pending_transfer_not_found\<close> when no stored transfer has the id \<open>pending_id\<close>; with
  \<open>pending_transfer_not_pending\<close> when the stored status of the referenced transfer is
  not \<open>pending\<close>; with the \<open>pending_transfer_has_different_...\<close> outcome of the first of
  debit account, credit account, ledger, code that differs; a posting request with a larger
  amount than the pending transfer's is rejected with \<open>exceeds_pending_transfer_amount\<close>,
  and one with \<open>amount \<le> pending.amount\<close> passes the checks on the pending transfer, what
  remains being the balance-constraint check (and then the overflow check); a voiding
  request with another amount than the pending transfer's is rejected with
  \<open>pending_transfer_has_different_amount\<close>.
\<close>

theorem pending_reference_checks:
  "validateTransfer t = TE_ok \<and> lookupTransfer db (t_id t) = None \<and> is_post_or_void t \<and>
   (t_flags t AND (TransferFlags_balancing_debit OR TransferFlags_balancing_credit)) = 0 \<and>
   lookupAccount db (t_debit_account_id t) = Some D \<and>
   lookupAccount db (t_credit_account_id t) = Some C \<and>
   a_ledger D = a_ledger C \<and> t_ledger t = a_ledger D \<and>
   (a_flags D AND AccountFlags_closed) = 0 \<and> (a_flags C AND AccountFlags_closed) = 0
   \<longrightarrow>
   (lookupTransfer db (t_pending_id t) = None \<longrightarrow>
      rejected_with TE_pending_transfer_not_found now i t (db, errors, l)) \<and>
   (lookupTransfer db (t_pending_id t) = Some P \<longrightarrow>
      (map_option p_status (pending_transfers db (t_pending_id t)) \<noteq>
          Some TransferPendingStatus_pending \<longrightarrow>
         rejected_with TE_pending_transfer_not_pending now i t (db, errors, l)) \<and>
      (map_option p_status (pending_transfers db (t_pending_id t)) =
          Some TransferPendingStatus_pending \<longrightarrow>
         (t_debit_account_id P \<noteq> t_debit_account_id t \<longrightarrow>
            rejected_with TE_pending_transfer_has_different_debit_account_id now i t
              (db, errors, l)) \<and>
         (t_debit_account_id P = t_debit_account_id t \<and>
          t_credit_account_id P \<noteq> t_credit_account_id t \<longrightarrow>
            rejected_with TE_pending_transfer_has_different_credit_account_id now i t
              (db, errors, l)) \<and>
         (t_debit_account_id P = t_debit_account_id t \<and>
          t_credit_account_id P = t_credit_account_id t \<and> t_ledger P \<noteq> t_ledger t \<longrightarrow>
            rejected_with TE_pending_transfer_has_different_ledger now i t (db, errors, l)) \<and>
         (t_debit_account_id P = t_debit_account_id t \<and>
          t_credit_account_id P = t_credit_account_id t \<and> t_ledger P = t_ledger t \<and>
          t_code P \<noteq> t_code t \<longrightarrow>
            rejected_with TE_pending_transfer_has_different_code now i t (db, errors, l)) \<and>
         (t_debit_account_id P = t_debit_account_id t \<and>
          t_credit_account_id P = t_credit_account_id t \<and> t_ledger P = t_ledger t \<and>
          t_code P = t_code t \<longrightarrow>
            ((t_flags t AND TransferFlags_post_pending_transfer) \<noteq> 0 \<and>
             t_amount t > t_amount P \<longrightarrow>
               rejected_with TE_exceeds_pending_transfer_amount now i t (db, errors, l)) \<and>
            ((t_flags t AND TransferFlags_post_pending_transfer) \<noteq> 0 \<and>
             t_amount t \<le> t_amount P \<longrightarrow>
               validateTransferAccounts t (Some D) (Some C) (Some P)
                 (Some TransferPendingStatus_pending) = balance_check t D C) \<and>
            ((t_flags t AND TransferFlags_post_pending_transfer) = 0 \<and>
             (t_flags t AND TransferFlags_void_pending_transfer) \<noteq> 0 \<and>
             t_amount t \<noteq> t_amount P \<longrightarrow>
               rejected_with TE_pending_transfer_has_different_amount now i t
                 (db, errors, l)))))"
proof (intro impI)
  assume pre: "validateTransfer t = TE_ok \<and> lookupTransfer db (t_id t) = None \<and>
   is_post_or_void t \<and>
   (t_flags t AND (TransferFlags_balancing_debit OR TransferFlags_balancing_credit)) = 0 \<and>
   lookupAccount db (t_debit_account_id t) = Some D \<and>
   lookupAccount db (t_credit_account_id t) = Some C \<and>
   a_ledger D = a_ledger C \<and> t_ledger t = a_ledger D \<and>
   (a_flags D AND AccountFlags_closed) = 0 \<and> (a_flags C AND AccountFlags_closed) = 0"
  then have v: "validateTransfer t = TE_ok" and f: "lookupTransfer db (t_id t) = None"
    and pv: "is_post_or_void t"
    and nb: "(t_flags t AND (TransferFlags_balancing_debit OR TransferFlags_balancing_credit)) = 0"
    and d: "lookupAccount db (t_debit_account_id t) = Some D"
    and c: "lookupAccount db (t_credit_account_id t) = Some C"
    and l1: "a_ledger D = a_ledger C" and l2: "t_ledger t = a_ledger D"
    and c1: "(a_flags D AND AccountFlags_closed) = 0"
    and c2: "(a_flags C AND AccountFlags_closed) = 0"
    by blast+
  note rej = pending_rejected [OF v f nb d c, of _ now i errors l]
  note vS = validateTransferAccounts_pending_Some [OF l1 l2 c1 c2 pv]
  have A: "rejected_with TE_pending_transfer_not_found now i t (db, errors, l)"
    if "lookupTransfer db (t_pending_id t) = None"
  proof (rule rej)
    show "validateTransferAccounts t (Some D) (Some C) (loadPendingTransfer db t)
        (or_undefined (loadPendingStatus db t)) = TE_pending_transfer_not_found"
      using that load_pending(1) [OF pv, of db]
        validateTransferAccounts_pending_None [OF l1 l2 c1 c2 pv]
      by simp
    show "TE_pending_transfer_not_found \<noteq> TE_ok" by (simp add: TE_defs)
  qed
  have B: "rejected_with e now i t (db, errors, l)"
    if P: "lookupTransfer db (t_pending_id t) = Some P"
      and r: "validateTransferAccounts t (Some D) (Some C) (Some P)
          (or_undefined (map_option p_status (pending_transfers db (t_pending_id t)))) = e"
      and ne: "e \<noteq> TE_ok" for e
  proof (rule rej)
    show "validateTransferAccounts t (Some D) (Some C) (loadPendingTransfer db t)
        (or_undefined (loadPendingStatus db t)) = e"
      using P r load_pending(1) [OF pv, of db] load_pending(2) [OF pv, of db P] by simp
    show "e \<noteq> TE_ok" by (rule ne)
  qed
  have np: "or_undefined s \<noteq> Some TransferPendingStatus_pending"
    if "s \<noteq> Some TransferPendingStatus_pending" for s
    using that by (simp add: or_undefined_pending)
  have yp: "or_undefined (Some TransferPendingStatus_pending) =
      Some TransferPendingStatus_pending"
    by (simp add: or_undefined_pending)
  show "(lookupTransfer db (t_pending_id t) = None \<longrightarrow>
      rejected_with TE_pending_transfer_not_found now i t (db, errors, l)) \<and>
   (lookupTransfer db (t_pending_id t) = Some P \<longrightarrow>
      (map_option p_status (pending_transfers db (t_pending_id t)) \<noteq>
          Some TransferPendingStatus_pending \<longrightarrow>
         rejected_with TE_pending_transfer_not_pending now i t (db, errors, l)) \<and>
      (map_option p_status (pending_transfers db (t_pending_id t)) =
          Some TransferPendingStatus_pending \<longrightarrow>
         (t_debit_account_id P \<noteq> t_debit_account_id t \<longrightarrow>
            rejected_with TE_pending_transfer_has_different_debit_account_id now i t
              (db, errors, l)) \<and>
         (t_debit_account_id P = t_debit_account_id t \<and>
          t_credit_account_id P \<noteq> t_credit_account_id t \<longrightarrow>
            rejected_with TE_pending_transfer_has_different_credit_account_id now i t
              (db, errors, l)) \<and>
         (t_debit_account_id P = t_debit_account_id t \<and>
          t_credit_account_id P = t_credit_account_id t \<and> t_ledger P \<noteq> t_ledger t \<longrightarrow>
            rejected_with TE_pending_transfer_has_different_ledger now i t (db, errors, l)) \<and>
         (t_debit_account_id P = t_debit_account_id t \<and>
          t_credit_account_id P = t_credit_account_id t \<and> t_ledger P = t_ledger t \<and>
          t_code P \<noteq> t_code t \<longrightarrow>
            rejected_with TE_pending_transfer_has_different_code now i t (db, errors, l)) \<and>
         (t_debit_account_id P = t_debit_account_id t \<and>
          t_credit_account_id P = t_credit_account_id t \<and> t_ledger P = t_ledger t \<and>
          t_code P = t_code t \<longrightarrow>
            ((t_flags t AND TransferFlags_post_pending_transfer) \<noteq> 0 \<and>
             t_amount t > t_amount P \<longrightarrow>
               rejected_with TE_exceeds_pending_transfer_amount now i t (db, errors, l)) \<and>
            ((t_flags t AND TransferFlags_post_pending_transfer) \<noteq> 0 \<and>
             t_amount t \<le> t_amount P \<longrightarrow>
               validateTransferAccounts t (Some D) (Some C) (Some P)
                 (Some TransferPendingStatus_pending) = balance_check t D C) \<and>
            ((t_flags t AND TransferFlags_post_pending_transfer) = 0 \<and>
             (t_flags t AND TransferFlags_void_pending_transfer) \<noteq> 0 \<and>
             t_amount t \<noteq> t_amount P \<longrightarrow>
               rejected_with TE_pending_transfer_has_different_amount now i t
                 (db, errors, l)))))"
  proof (intro conjI impI)
    assume "lookupTransfer db (t_pending_id t) = None"
    then show "rejected_with TE_pending_transfer_not_found now i t (db, errors, l)" by (rule A)
  next
    assume P: "lookupTransfer db (t_pending_id t) = Some P"
      and s: "map_option p_status (pending_transfers db (t_pending_id t)) \<noteq>
          Some TransferPendingStatus_pending"
    show "rejected_with TE_pending_transfer_not_pending now i t (db, errors, l)"
      by (rule B [OF P]) (simp_all add: vS np [OF s] TE_defs)
  next
    assume P: "lookupTransfer db (t_pending_id t) = Some P"
      and s: "map_option p_status (pending_transfers db (t_pending_id t)) =
          Some TransferPendingStatus_pending"
      and x: "t_debit_account_id P \<noteq> t_debit_account_id t"
    show "rejected_with TE_pending_transfer_has_different_debit_account_id now i t
              (db, errors, l)"
      using x by (intro B [OF P]) (simp_all add: vS s yp TE_defs)
  next
    assume P: "lookupTransfer db (t_pending_id t) = Some P"
      and s: "map_option p_status (pending_transfers db (t_pending_id t)) =
          Some TransferPendingStatus_pending"
      and x: "t_debit_account_id P = t_debit_account_id t \<and>
          t_credit_account_id P \<noteq> t_credit_account_id t"
    show "rejected_with TE_pending_transfer_has_different_credit_account_id now i t
              (db, errors, l)"
      using x by (intro B [OF P]) (simp_all add: vS s yp TE_defs)
  next
    assume P: "lookupTransfer db (t_pending_id t) = Some P"
      and s: "map_option p_status (pending_transfers db (t_pending_id t)) =
          Some TransferPendingStatus_pending"
      and x: "t_debit_account_id P = t_debit_account_id t \<and>
          t_credit_account_id P = t_credit_account_id t \<and> t_ledger P \<noteq> t_ledger t"
    show "rejected_with TE_pending_transfer_has_different_ledger now i t (db, errors, l)"
      using x by (intro B [OF P]) (simp_all add: vS s yp TE_defs)
  next
    assume P: "lookupTransfer db (t_pending_id t) = Some P"
      and s: "map_option p_status (pending_transfers db (t_pending_id t)) =
          Some TransferPendingStatus_pending"
      and x: "t_debit_account_id P = t_debit_account_id t \<and>
          t_credit_account_id P = t_credit_account_id t \<and> t_ledger P = t_ledger t \<and>
          t_code P \<noteq> t_code t"
    show "rejected_with TE_pending_transfer_has_different_code now i t (db, errors, l)"
      using x by (intro B [OF P]) (simp_all add: vS s yp TE_defs)
  next
    assume P: "lookupTransfer db (t_pending_id t) = Some P"
      and s: "map_option p_status (pending_transfers db (t_pending_id t)) =
          Some TransferPendingStatus_pending"
      and x: "t_debit_account_id P = t_debit_account_id t \<and>
          t_credit_account_id P = t_credit_account_id t \<and> t_ledger P = t_ledger t \<and>
          t_code P = t_code t"
      and y: "(t_flags t AND TransferFlags_post_pending_transfer) \<noteq> 0 \<and>
             t_amount t > t_amount P"
    show "rejected_with TE_exceeds_pending_transfer_amount now i t (db, errors, l)"
      using x y by (intro B [OF P]) (simp_all add: vS s yp TE_defs)
  next
    assume x: "t_debit_account_id P = t_debit_account_id t \<and>
          t_credit_account_id P = t_credit_account_id t \<and> t_ledger P = t_ledger t \<and>
          t_code P = t_code t"
      and y: "(t_flags t AND TransferFlags_post_pending_transfer) \<noteq> 0 \<and>
             t_amount t \<le> t_amount P"
    show "validateTransferAccounts t (Some D) (Some C) (Some P)
                 (Some TransferPendingStatus_pending) = balance_check t D C"
      using x y by (simp add: vS)
  next
    assume P: "lookupTransfer db (t_pending_id t) = Some P"
      and s: "map_option p_status (pending_transfers db (t_pending_id t)) =
          Some TransferPendingStatus_pending"
      and x: "t_debit_account_id P = t_debit_account_id t \<and>
          t_credit_account_id P = t_credit_account_id t \<and> t_ledger P = t_ledger t \<and>
          t_code P = t_code t"
      and y: "(t_flags t AND TransferFlags_post_pending_transfer) = 0 \<and>
             (t_flags t AND TransferFlags_void_pending_transfer) \<noteq> 0 \<and>
             t_amount t \<noteq> t_amount P"
    show "rejected_with TE_pending_transfer_has_different_amount now i t (db, errors, l)"
      using x y by (intro B [OF P]) (simp_all add: vS s yp TE_defs)
  qed
qed



lemma cex_a: "fst (createTransfers (\<lambda>i. 0)
      [mk_resolution 41 40 300 TransferFlags_post_pending_transfer,
       mk_resolution 41 40 300 TransferFlags_post_pending_transfer] db_two_phase) =
     [(1, TE_exists)]"
  by (simp add: model_defs mk_resolution_def db_two_phase_def flag_defs TE_defs status_defs
      Let_def)

theorem pending_reference_checks_witness:
  "rejected_with TE_pending_transfer_not_found (\<lambda>i. 0) 0
     (mk_resolution 41 99 10 TransferFlags_post_pending_transfer) (db_two_phase, [], 0) \<and>
   rejected_with TE_exceeds_pending_transfer_amount (\<lambda>i. 0) 0
     (mk_resolution 41 40 301 TransferFlags_post_pending_transfer) (db_two_phase, [], 0) \<and>
   rejected_with TE_pending_transfer_has_different_amount (\<lambda>i. 0) 0
     (mk_resolution 41 40 299 TransferFlags_void_pending_transfer) (db_two_phase, [], 0) \<and>
   rejected_with TE_pending_transfer_not_pending (\<lambda>i. 0) 0
     (mk_resolution 41 40 300 TransferFlags_post_pending_transfer)
     (db_two_phase\<lparr>pending_transfers :=
        [40 \<mapsto> \<lparr>p_status = 2, p_expires_at = 0, p_timestamp = 6\<rparr>]\<rparr>, [], 0)"
proof -
  let ?D = "(mk_account 1 AccountFlags_debits_must_not_exceed_credits)
               \<lparr>a_credits_posted := 300, a_debits_pending := 300\<rparr>"
  let ?C = "(mk_account 3 0)\<lparr>a_credits_pending := 300\<rparr>"
  let ?P = "(mk_transfer 40 1 3 300 TransferFlags_pending)\<lparr>t_timestamp := 5\<rparr>"
  let ?db2 = "db_two_phase\<lparr>pending_transfers :=
        [40 \<mapsto> \<lparr>p_status = 2, p_expires_at = 0, p_timestamp = 6\<rparr>]\<rparr>"
  have pre: "validateTransfer (mk_resolution 41 pid a fl) = TE_ok \<and>
     lookupTransfer db (t_id (mk_resolution 41 pid a fl)) = None \<and>
     is_post_or_void (mk_resolution 41 pid a fl) \<and>
     (t_flags (mk_resolution 41 pid a fl) AND
        (TransferFlags_balancing_debit OR TransferFlags_balancing_credit)) = 0 \<and>
     lookupAccount db (t_debit_account_id (mk_resolution 41 pid a fl)) = Some ?D \<and>
     lookupAccount db (t_credit_account_id (mk_resolution 41 pid a fl)) = Some ?C \<and>
     a_ledger ?D = a_ledger ?C \<and> t_ledger (mk_resolution 41 pid a fl) = a_ledger ?D \<and>
     (a_flags ?D AND AccountFlags_closed) = 0 \<and> (a_flags ?C AND AccountFlags_closed) = 0"
    if "(db, pid, a, fl) = (db_two_phase, 99, 10, TransferFlags_post_pending_transfer) \<or>
        (db, pid, a, fl) = (db_two_phase, 40, 301, TransferFlags_post_pending_transfer) \<or>
        (db, pid, a, fl) = (db_two_phase, 40, 299, TransferFlags_void_pending_transfer) \<or>
        (db, pid, a, fl) = (?db2, 40, 300, TransferFlags_post_pending_transfer)"
    for db pid a fl
    using that
    by (elim disjE)
      (simp_all add: model_defs mk_resolution_def is_post_or_void_def db_two_phase_def
        flag_defs TE_defs)
  have look: "lookupTransfer db_two_phase 99 = None" "lookupTransfer db_two_phase 40 = Some ?P"
    "lookupTransfer ?db2 40 = Some ?P"
    "map_option p_status (pending_transfers db_two_phase 40) = Some TransferPendingStatus_pending"
    "map_option p_status (pending_transfers ?db2 40) \<noteq> Some TransferPendingStatus_pending"
    by (simp_all add: lookupTransfer_def db_two_phase_def empty_db_def status_defs)
  have flds: "t_pending_id (mk_resolution 41 pid a fl) = pid"
    "t_debit_account_id (mk_resolution 41 pid a fl) = 1"
    "t_credit_account_id (mk_resolution 41 pid a fl) = 3"
    "t_ledger (mk_resolution 41 pid a fl) = 1" "t_code (mk_resolution 41 pid a fl) = 1"
    "t_amount (mk_resolution 41 pid a fl) = a" "t_flags (mk_resolution 41 pid a fl) = fl"
    "t_debit_account_id ?P = 1" "t_credit_account_id ?P = 3" "t_ledger ?P = 1"
    "t_code ?P = 1" "t_amount ?P = 300"
    for pid a fl
    by (simp_all add: mk_resolution_def mk_transfer_def transfer0_def)
  have w1: "rejected_with TE_pending_transfer_not_found (\<lambda>i. 0) 0
     (mk_resolution 41 99 10 TransferFlags_post_pending_transfer) (db_two_phase, [], 0)"
    using pending_reference_checks [of "mk_resolution 41 99 10 TransferFlags_post_pending_transfer"
        db_two_phase ?D ?C "\<lambda>i. 0" 0 "[]" 0 ?P]
      pre [of db_two_phase 99 10 TransferFlags_post_pending_transfer, simplified] look flds
    by simp
  have w2: "rejected_with TE_exceeds_pending_transfer_amount (\<lambda>i. 0) 0
     (mk_resolution 41 40 301 TransferFlags_post_pending_transfer) (db_two_phase, [], 0)"
    using pending_reference_checks [of "mk_resolution 41 40 301 TransferFlags_post_pending_transfer"
        db_two_phase ?D ?C "\<lambda>i. 0" 0 "[]" 0 ?P]
      pre [of db_two_phase 40 301 TransferFlags_post_pending_transfer, simplified] look flds
    by (simp add: TransferFlags_post_pending_transfer_def)
  have w3: "rejected_with TE_pending_transfer_has_different_amount (\<lambda>i. 0) 0
     (mk_resolution 41 40 299 TransferFlags_void_pending_transfer) (db_two_phase, [], 0)"
    using pending_reference_checks [of "mk_resolution 41 40 299 TransferFlags_void_pending_transfer"
        db_two_phase ?D ?C "\<lambda>i. 0" 0 "[]" 0 ?P]
      pre [of db_two_phase 40 299 TransferFlags_void_pending_transfer, simplified] look flds
    by (simp add: TransferFlags_post_pending_transfer_def TransferFlags_void_pending_transfer_def)
  have w4: "rejected_with TE_pending_transfer_not_pending (\<lambda>i. 0) 0
     (mk_resolution 41 40 300 TransferFlags_post_pending_transfer) (?db2, [], 0)"
    using pending_reference_checks [of "mk_resolution 41 40 300 TransferFlags_post_pending_transfer"
        ?db2 ?D ?C "\<lambda>i. 0" 0 "[]" 0 ?P]
      pre [of ?db2 40 300 TransferFlags_post_pending_transfer, simplified] look flds
    by simp
  show ?thesis using w1 w2 w3 w4 by simp
qed

text \<open>
  Without the added conditions the claim fails on \<open>db_two_phase\<close>. A posting request sent
  a second time finds its own id stored and gets \<open>exists\<close>, although the pending transfer
  is no longer pending. A voiding request for 500 with \<open>balancing_debit\<close> is first clamped
  to the 300 that account 1 can pay, then matches the pending amount and is accepted. A
  partial post of 100 after account 1 has spent its credits is rejected with
  \<open>exceeds_credits\<close>.
\<close>

theorem pending_reference_checks_counterexample:
  "fst (createTransfers (\<lambda>i. 0)
      [mk_resolution 41 40 300 TransferFlags_post_pending_transfer,
       mk_resolution 41 40 300 TransferFlags_post_pending_transfer] db_two_phase) =
     [(1, TE_exists)] \<and>
   map_option p_status (pending_transfers (snd (createTransfers (\<lambda>i. 0)
      [mk_resolution 41 40 300 TransferFlags_post_pending_transfer] db_two_phase)) 40) =
     Some TransferPendingStatus_posted \<and>
   TE_exists \<noteq> TE_pending_transfer_not_pending \<and>
   fst (createTransfers (\<lambda>i. 0)
      [mk_resolution 42 40 500
         (TransferFlags_void_pending_transfer OR TransferFlags_balancing_debit)]
      db_two_phase) = [] \<and>
   map_option t_amount (transfers (snd (createTransfers (\<lambda>i. 0)
      [mk_resolution 42 40 500
         (TransferFlags_void_pending_transfer OR TransferFlags_balancing_debit)]
      db_two_phase)) 42) = Some 300 \<and>
   fst (createTransfers (\<lambda>i. 0)
      [mk_transfer 45 1 3 300 0, mk_resolution 44 40 100 TransferFlags_post_pending_transfer]
      db_two_phase) = [(1, TE_exceeds_credits)]"
  by (simp add: model_defs mk_resolution_def db_two_phase_def flag_defs TE_defs status_defs
      Let_def)

section \<open>Byte buffers\<close>

lemma length_le_bytes [simp]: "length (le_bytes n v) = n"
  by (induction n arbitrary: v) simp_all

lemma le_val_le_bytes: "le_val (le_bytes n v) = v mod 256 ^ n"
proof (induction n arbitrary: v)
  case 0
  then show ?case by simp
next
  case (Suc n)
  have "v mod 256 + 256 * (v div 256 mod 256 ^ n) = v mod (256 * 256 ^ n)"
    by (simp add: mod_mult2_eq)
  then show ?case using Suc by simp
qed

lemma le_val_append: "le_val (xs @ ys) = le_val xs + 256 ^ length xs * le_val ys"
  by (induction xs) (simp_all add: algebra_simps)

lemma le_val_bound: "\<forall>b \<in> set xs. b < 256 \<Longrightarrow> le_val xs < 256 ^ length xs"
proof (induction xs)
  case Nil
  then show ?case by simp
next
  case (Cons b bs)
  then have "b < 256" and "le_val bs < 256 ^ length bs" by simp_all
  then have "b + 256 * le_val bs < 256 + 256 * le_val bs" by simp
  also have "\<dots> = 256 * (le_val bs + 1)" by simp
  also have "\<dots> \<le> 256 * 256 ^ length bs"
    using \<open>le_val bs < 256 ^ length bs\<close> by (intro mult_le_mono2) simp
  finally show ?case by simp
qed

lemma le_bytes_bytes: "\<forall>b \<in> set (le_bytes n v). b < 256"
  by (induction n arbitrary: v) simp_all

lemma length_setUint [simp]:
  "byteOffset + n \<le> length buf \<Longrightarrow> length (setUint n buf byteOffset v) = length buf"
  by (simp add: setUint_def)

lemma set_take_drop_bytes:
  assumes "\<forall>b \<in> set buf. b < (256::nat)"
  shows "(\<forall>b \<in> set (take k buf). b < 256) \<and> (\<forall>b \<in> set (drop k buf). b < 256)"
  using assms by (auto dest: in_set_takeD in_set_dropD)

lemma wf_setUint:
  assumes "wf_buffer buf" and "byteOffset + n \<le> 16"
  shows "wf_buffer (setUint n buf byteOffset v)"
proof -
  have len: "length buf = 16" and bytes: "\<forall>b \<in> set buf. b < 256"
    using assms(1) by (simp_all add: wf_buffer_def)
  have "length (setUint n buf byteOffset v) = 16"
    using len assms(2) by simp
  moreover have "\<forall>b \<in> set (setUint n buf byteOffset v). b < 256"
    using le_bytes_bytes [of n v] set_take_drop_bytes [OF bytes, of byteOffset]
      set_take_drop_bytes [OF bytes, of "byteOffset + n"]
    by (auto simp add: setUint_def)
  ultimately show ?thesis by (simp add: wf_buffer_def)
qed

lemma getUint_bound:
  assumes "\<forall>b \<in> set buf. b < 256" and "byteOffset + n \<le> length buf"
  shows "getUint n buf byteOffset < 256 ^ n"
proof -
  have "\<forall>b \<in> set (take n (drop byteOffset buf)). b < 256"
    using assms(1) by (meson in_set_dropD in_set_takeD)
  from le_val_bound [OF this] show ?thesis
    using assms(2) by (simp add: getUint_def)
qed

lemma getUint_setUint_same:
  assumes "byteOffset + n \<le> length buf"
  shows "getUint n (setUint n buf byteOffset v) byteOffset = v mod 256 ^ n"
  using assms by (simp add: getUint_def setUint_def le_val_le_bytes)

lemma getUint_setUint_before:
  assumes "off + n \<le> off'" and "off' \<le> length buf"
  shows "getUint n (setUint m buf off' v) off = getUint n buf off"
proof -
  have "take n (drop off (take off' buf @ le_bytes m v @ drop (off' + m) buf)) =
        take n (drop off (take off' buf))"
    using assms by simp
  also have "\<dots> = take n (drop off buf)"
    using assms by (simp add: drop_take min_def)
  finally show ?thesis by (simp add: getUint_def setUint_def)
qed


lemma getUint_split:
  assumes "off + n \<le> length buf"
  shows "getUint (n + m) buf off = getUint n buf off + 256 ^ n * getUint m buf (off + n)"
proof -
  have "take (n + m) (drop off buf) = take n (drop off buf) @ take m (drop n (drop off buf))"
    by (rule take_add)
  moreover have "drop n (drop off buf) = drop (off + n) buf"
    by (simp add: add.commute)
  ultimately have "take (n + m) (drop off buf) =
      take n (drop off buf) @ take m (drop (off + n) buf)"
    by simp
  moreover have "length (take n (drop off buf)) = n"
    using assms by simp
  ultimately show ?thesis
    by (simp add: getUint_def le_val_append)
qed

lemma take_bit_and_push_bit_zero:
  "take_bit n a AND push_bit n b = (0::'a::semiring_bit_operations)"
  by (auto simp: bit_eq_iff bit_simps)

lemma or_push_bit_eq_add:
  "take_bit n a OR push_bit n b = take_bit n a + push_bit n (b::'a::semiring_bit_operations)"
  using disjunctive_add_eq_or [OF take_bit_and_push_bit_zero [of n a b]] by simp


lemma int_or_push_bit:
  assumes "0 \<le> a" and "a < 2 ^ n"
  shows "push_bit n b OR a = 2 ^ n * b + (a::int)"
  using or_push_bit_eq_add [of n a b] assms
  by (simp add: take_bit_int_eq_self push_bit_eq_mult or.commute)







section \<open>The identifier generator\<close>












lemma int_and_mask16: "(k::int) AND 0xFFFF = k mod 2 ^ 16"
  using take_bit_eq_mask [of 16 k] by (simp add: mask_eq_exp_minus_1 take_bit_eq_mod)

lemma int_and_mask32: "(k::int) AND 0xFFFFFFFF = k mod 2 ^ 32"
  using take_bit_eq_mask [of 32 k] by (simp add: mask_eq_exp_minus_1 take_bit_eq_mod)

lemma timestamp_halves:
  assumes "0 \<le> ts"
  shows "nat (ts AND 0xFFFF) mod 2 ^ 16 +
         2 ^ 16 * (nat (drop_bit 16 ts AND 0xFFFFFFFF) mod 2 ^ 32) = nat (ts mod 2 ^ 48)"
proof -
  have a: "nat (ts AND 0xFFFF) = nat ts mod 2 ^ 16"
    using assms by (simp add: int_and_mask16 nat_mod_distrib)
  have b: "nat (drop_bit 16 ts AND 0xFFFFFFFF) = (nat ts div 2 ^ 16) mod 2 ^ 32"
    using assms by (simp add: int_and_mask32 drop_bit_eq_div nat_mod_distrib nat_div_distrib)
  have "nat ts mod (2 ^ 16 * 2 ^ 32) =
      2 ^ 16 * (nat ts div 2 ^ 16 mod 2 ^ 32) + nat ts mod 2 ^ 16"
    by (rule mod_mult2_eq)
  then show ?thesis
    using assms by (simp add: a b nat_mod_distrib)
qed

text \<open>
  Writing the timestamp into bytes 10 to 15 and reading the buffer as two 64-bit halves
  gives \<open>(timestamp mod 2^48) * 2^80 + r\<close>, where \<open>r\<close> is the number in bytes 0 to 9.
\<close>

lemma compose_id:
  assumes wf: "wf_buffer buf1" and ts: "0 \<le> ts"
  defines "buf3 \<equiv> setUint32 (setUint16 buf1 10 (nat (ts AND 0xFFFF))) 12
                     (nat (drop_bit 16 ts AND 0xFFFFFFFF))"
  shows "push_bit 64 (int (getBigUint64 buf3 8)) OR int (getBigUint64 buf3 0) =
           2 ^ 80 * (ts mod 2 ^ 48) + int (getUint 10 buf1 0)"
    and "wf_buffer buf3" and "getUint 10 buf3 0 = getUint 10 buf1 0"
proof -
  have len1: "length buf1 = 16" using wf by (simp add: wf_buffer_def)
  define buf2 where "buf2 = setUint16 buf1 10 (nat (ts AND 0xFFFF))"
  have wf2: "wf_buffer buf2"
    unfolding buf2_def setUint16_def using wf by (rule wf_setUint) simp
  have len2: "length buf2 = 16" using wf2 by (simp add: wf_buffer_def)
  have b3: "buf3 = setUint 4 buf2 12 (nat (drop_bit 16 ts AND 0xFFFFFFFF))"
    by (simp add: buf3_def buf2_def setUint32_def)
  show wf3: "wf_buffer buf3"
    unfolding b3 using wf2 by (rule wf_setUint) simp
  have len3: "length buf3 = 16" using wf3 by (simp add: wf_buffer_def)
  have bytes3: "\<forall>b \<in> set buf3. b < 256" using wf3 by (simp add: wf_buffer_def)
  have keep: "getUint n buf3 off = getUint n buf1 off" if "off + n \<le> 10" for n off
  proof -
    have "getUint n buf3 off = getUint n buf2 off"
      unfolding b3 using that len2 by (intro getUint_setUint_before) simp_all
    also have "\<dots> = getUint n buf1 off"
      unfolding buf2_def setUint16_def using that len1
      by (intro getUint_setUint_before) simp_all
    finally show ?thesis .
  qed
  show "getUint 10 buf3 0 = getUint 10 buf1 0" by (rule keep) simp
  have t_hi: "getUint 4 buf3 12 = nat (drop_bit 16 ts AND 0xFFFFFFFF) mod 2 ^ 32"
    unfolding b3 using len2 by (simp add: getUint_setUint_same)
  have t_lo: "getUint 2 buf3 10 = nat (ts AND 0xFFFF) mod 2 ^ 16"
  proof -
    have "getUint 2 buf3 10 = getUint 2 buf2 10"
      unfolding b3 using len2 by (intro getUint_setUint_before) simp_all
    then show ?thesis
      unfolding buf2_def setUint16_def using len1 by (simp add: getUint_setUint_same)
  qed
  have hi: "getUint 8 buf3 8 = getUint 2 buf1 8 + 2 ^ 16 * nat (ts mod 2 ^ 48)"
  proof -
    have "getUint (2 + 6) buf3 8 = getUint 2 buf3 8 + 256 ^ 2 * getUint 6 buf3 (8 + 2)"
      by (rule getUint_split) (simp add: len3)
    moreover have "getUint (2 + 4) buf3 10 = getUint 2 buf3 10 + 256 ^ 2 * getUint 4 buf3 (10 + 2)"
      by (rule getUint_split) (simp add: len3)
    ultimately have "getUint 8 buf3 8 =
        getUint 2 buf3 8 + 2 ^ 16 * (getUint 2 buf3 10 + 2 ^ 16 * getUint 4 buf3 12)"
      by simp
    then show ?thesis
      using keep [of 8 2] t_lo t_hi timestamp_halves [OF ts] by simp
  qed
  have lo: "getUint 10 buf1 0 = getUint 8 buf3 0 + 2 ^ 64 * getUint 2 buf1 8"
  proof -
    have "getUint (8 + 2) buf1 0 = getUint 8 buf1 0 + 256 ^ 8 * getUint 2 buf1 (0 + 8)"
      by (rule getUint_split) (simp add: len1)
    then show ?thesis using keep [of 0 8] by simp
  qed
  have lo_bound: "getUint 8 buf3 0 < 256 ^ 8"
    using bytes3 len3 by (intro getUint_bound) simp_all
  have "push_bit 64 (int (getUint 8 buf3 8)) OR int (getUint 8 buf3 0) =
      2 ^ 64 * int (getUint 8 buf3 8) + int (getUint 8 buf3 0)"
    using lo_bound by (intro int_or_push_bit) simp_all
  also have "\<dots> = 2 ^ 80 * (ts mod 2 ^ 48) + int (getUint 10 buf1 0)"
    using ts by (simp add: hi lo)
  finally show "push_bit 64 (int (getBigUint64 buf3 8)) OR int (getBigUint64 buf3 0) =
           2 ^ 80 * (ts mod 2 ^ 48) + int (getUint 10 buf1 0)"
    by (simp add: getBigUint64_def)
qed











section \<open>createId and parseId\<close>

lemma int_and_mask64: "(k::int) AND (push_bit 64 1 - 1) = k mod 2 ^ 64"
  using take_bit_eq_mask [of 64 k]
  by (simp add: mask_eq_exp_minus_1 take_bit_eq_mod push_bit_eq_mult)

lemma int_and_mask80: "(k::int) AND (push_bit 80 1 - 1) = k mod 2 ^ 80"
  using take_bit_eq_mask [of 80 k]
  by (simp add: mask_eq_exp_minus_1 take_bit_eq_mod push_bit_eq_mult)

lemma div_mod_low:
  "a < b \<Longrightarrow> (a + b * q) div b = q \<and> (a + b * q) mod b = (a::nat)"
  by simp

lemma nat_and_mask64_of_int: "nat ((int n AND (push_bit 64 1 - 1)) mod 2 ^ 64) = n mod 2 ^ 64"
proof -
  have "int n AND (push_bit 64 1 - 1) = int n mod 2 ^ 64" by (rule int_and_mask64)
  then show ?thesis by (simp add: nat_mod_distrib)
qed

lemma wf_buffer_zero: "wf_buffer (replicate 16 0)"
  by (simp add: wf_buffer_def)

lemma createId_value:
  assumes t: "0 \<le> t" and r: "0 \<le> r" "r < 2 ^ 80"
  shows "createId t r = 2 ^ 80 * (t mod 2 ^ 48) + r"
proof -
  define n where "n = nat r"
  have n: "r = int n" "n < 2 ^ 80" using r by (simp_all add: n_def)
  define b1 where "b1 = setUint 8 (replicate 16 0) 0 (n mod 2 ^ 64)"
  define b2 where "b2 = setUint 2 b1 8 (n div 2 ^ 64 mod 2 ^ 16)"
  have wf1: "wf_buffer b1"
    unfolding b1_def using wf_buffer_zero by (rule wf_setUint) simp
  have wf2: "wf_buffer b2"
    unfolding b2_def using wf1 by (rule wf_setUint) simp
  have len1: "length b1 = 16" using wf1 by (simp add: wf_buffer_def)
  have len2: "length b2 = 16" using wf2 by (simp add: wf_buffer_def)
  have lo: "getUint 8 b2 0 = n mod 2 ^ 64"
  proof -
    have "getUint 8 b2 0 = getUint 8 b1 0"
      unfolding b2_def using len1 by (intro getUint_setUint_before) simp_all
    then show ?thesis by (simp add: b1_def getUint_setUint_same)
  qed
  have hi: "getUint 2 b2 8 = n div 2 ^ 64"
  proof -
    have "n div 2 ^ 64 < 2 ^ 16" using n(2) by (simp add: less_mult_imp_div_less)
    then show ?thesis
      unfolding b2_def using len1 by (simp add: getUint_setUint_same)
  qed
  have "getUint (8 + 2) b2 0 = getUint 8 b2 0 + 256 ^ 8 * getUint 2 b2 (0 + 8)"
    by (rule getUint_split) (simp add: len2)
  then have val: "getUint 10 b2 0 = n"
    using lo hi by simp
  have masked: "r AND (push_bit 80 1 - 1) = r"
    using r int_and_mask80 [of r] by simp
  have rlo: "nat ((r AND (push_bit 64 1 - 1)) mod 2 ^ 64) = n mod 2 ^ 64"
    unfolding n(1) by (rule nat_and_mask64_of_int)
  have rhi: "nat (drop_bit 64 r mod 2 ^ 16) = n div 2 ^ 64 mod 2 ^ 16"
    using n(1) by (simp add: drop_bit_eq_div nat_mod_distrib nat_div_distrib)
  have "createId t r =
    push_bit 64 (int (getBigUint64
       (setUint32 (setUint16 b2 10 (nat (t AND 0xFFFF))) 12
          (nat (drop_bit 16 t AND 0xFFFFFFFF))) 8)) OR
    int (getBigUint64
       (setUint32 (setUint16 b2 10 (nat (t AND 0xFFFF))) 12
          (nat (drop_bit 16 t AND 0xFFFFFFFF))) 0)"
    unfolding createId_def Let_def masked rlo rhi
    by (simp add: b2_def b1_def setBigUint64_def setUint16_def)
  also have "\<dots> = 2 ^ 80 * (t mod 2 ^ 48) + int (getUint 10 b2 0)"
    by (rule compose_id(1) [OF wf2 t])
  finally show ?thesis using val n(1) by simp
qed

lemma parseId_value:
  assumes "0 \<le> ident" and "ident < 2 ^ 128"
  shows "parseId ident = (ident div 2 ^ 80, ident mod 2 ^ 80)"
proof -
  define n where "n = nat ident"
  have n: "ident = int n" "n < 2 ^ 128" using assms by (simp_all add: n_def)
  define b1 where "b1 = setUint 8 (replicate 16 0) 0 (n mod 2 ^ 64)"
  define b2 where "b2 = setUint 8 b1 8 (n div 2 ^ 64)"
  have wf1: "wf_buffer b1"
    unfolding b1_def using wf_buffer_zero by (rule wf_setUint) simp
  have wf2: "wf_buffer b2"
    unfolding b2_def using wf1 by (rule wf_setUint) simp
  have len1: "length b1 = 16" using wf1 by (simp add: wf_buffer_def)
  have len2: "length b2 = 16" and bytes2: "\<forall>b \<in> set b2. b < 256"
    using wf2 by (simp_all add: wf_buffer_def)
  have lo: "getUint 8 b2 0 = n mod 2 ^ 64"
  proof -
    have "getUint 8 b2 0 = getUint 8 b1 0"
      unfolding b2_def using len1 by (intro getUint_setUint_before) simp_all
    then show ?thesis by (simp add: b1_def getUint_setUint_same)
  qed
  have hdiv: "n div 2 ^ 64 < 2 ^ 64" using n(2) by (simp add: less_mult_imp_div_less)
  have hi: "getUint 8 b2 8 = n div 2 ^ 64"
    unfolding b2_def using len1 hdiv by (simp add: getUint_setUint_same)
  define rh where "rh = getUint 2 b2 8"
  define tl where "tl = getUint 2 b2 10"
  define th where "th = getUint 4 b2 12"
  have bounds: "rh < 2 ^ 16" "tl < 2 ^ 16" "th < 2 ^ 32"
    using getUint_bound [OF bytes2, of 8 2] getUint_bound [OF bytes2, of 10 2]
      getUint_bound [OF bytes2, of 12 4] len2
    by (simp_all add: rh_def tl_def th_def)
  have "getUint (2 + 6) b2 8 = getUint 2 b2 8 + 256 ^ 2 * getUint 6 b2 (8 + 2)"
    by (rule getUint_split) (simp add: len2)
  moreover have "getUint (2 + 4) b2 10 = getUint 2 b2 10 + 256 ^ 2 * getUint 4 b2 (10 + 2)"
    by (rule getUint_split) (simp add: len2)
  ultimately have parts: "n div 2 ^ 64 = rh + 2 ^ 16 * (tl + 2 ^ 16 * th)"
    using hi by (simp add: rh_def tl_def th_def)
  have tval: "tl + 2 ^ 16 * th = n div 2 ^ 80"
  proof -
    have "(n div 2 ^ 64) div 2 ^ 16 = (rh + 2 ^ 16 * (tl + 2 ^ 16 * th)) div 2 ^ 16"
      by (simp only: parts)
    also have "\<dots> = tl + 2 ^ 16 * th"
      using div_mod_low [of rh "2 ^ 16" "tl + 2 ^ 16 * th"] bounds(1) by blast
    finally have "(n div 2 ^ 64) div 2 ^ 16 = tl + 2 ^ 16 * th" .
    moreover have "(n div 2 ^ 64) div 2 ^ 16 = n div (2 ^ 64 * 2 ^ 16)"
      by (rule div_mult2_eq [symmetric])
    ultimately show ?thesis by simp
  qed
  have rval: "n mod 2 ^ 64 + 2 ^ 64 * rh = n mod 2 ^ 80"
  proof -
    have "(n div 2 ^ 64) mod 2 ^ 16 = (rh + 2 ^ 16 * (tl + 2 ^ 16 * th)) mod 2 ^ 16"
      by (simp only: parts)
    also have "\<dots> = rh"
      using div_mod_low [of rh "2 ^ 16" "tl + 2 ^ 16 * th"] bounds(1) by blast
    finally have "(n div 2 ^ 64) mod 2 ^ 16 = rh" .
    moreover have "n mod (2 ^ 64 * 2 ^ 16) = 2 ^ 64 * (n div 2 ^ 64 mod 2 ^ 16) + n mod 2 ^ 64"
      by (rule mod_mult2_eq)
    ultimately show ?thesis by simp
  qed
  have t_or: "int tl OR push_bit 16 (int th) = int (tl + 2 ^ 16 * th)"
    using int_or_push_bit [of "int tl" 16 "int th"] bounds(2)
    by (simp add: or.commute)
  have r_or: "int (n mod 2 ^ 64) OR push_bit 64 (int rh) = int (n mod 2 ^ 64 + 2 ^ 64 * rh)"
    using int_or_push_bit [of "int (n mod 2 ^ 64)" 64 "int rh"]
    by (simp add: or.commute)
  have ilo: "nat ((ident AND (push_bit 64 1 - 1)) mod 2 ^ 64) = n mod 2 ^ 64"
    unfolding n(1) by (rule nat_and_mask64_of_int)
  have ihi: "nat (drop_bit 64 ident mod 2 ^ 64) = n div 2 ^ 64"
    using n(1) hdiv by (simp add: drop_bit_eq_div nat_mod_distrib nat_div_distrib)
  have "parseId ident =
     (int tl OR push_bit 16 (int th),
      (int (getUint 8 b2 0) OR push_bit 64 (int rh)) AND (push_bit 80 1 - 1))"
    unfolding parseId_def Let_def ilo ihi
    by (simp add: b2_def b1_def setBigUint64_def getUint16_def getUint32_def
        getBigUint64_def rh_def tl_def th_def)
  also have "\<dots> = (int (n div 2 ^ 80), int (n mod 2 ^ 80))"
    unfolding lo t_or r_or tval rval int_and_mask80
    by (simp add: zmod_int)
  finally show ?thesis
    using n(1) by (simp add: zdiv_int zmod_int)
qed

text \<open>
  C8. For every timestamp \<open>t\<close> with \<open>0 \<le> t < 2^48\<close> and every random component \<open>r\<close>
  with \<open>0 \<le> r < 2^80\<close>, \<open>parseId (createId t r)\<close> returns \<open>t\<close> and \<open>r\<close>.
\<close>

theorem id_round_trip:
  assumes "0 \<le> t" and "t < 2 ^ 48" and "0 \<le> r" and "r < 2 ^ 80"
  shows "parseId (createId t r) = (t, r)"
proof -
  have c: "createId t r = 2 ^ 80 * t + r"
    using createId_value [OF assms(1) assms(3) assms(4)] assms(1,2) by simp
  have nonneg: "0 \<le> 2 ^ 80 * t + r" using assms by simp
  have "2 ^ 80 * t \<le> 2 ^ 80 * (2 ^ 48 - 1)"
    using assms(2) by (intro mult_left_mono) simp_all
  then have small: "2 ^ 80 * t + r < 2 ^ 128" using assms(4) by simp
  have "(2 ^ 80 * t + r) div 2 ^ 80 = t" and "(2 ^ 80 * t + r) mod 2 ^ 80 = r"
    using assms(3,4) by simp_all
  then show ?thesis
    using parseId_value [OF nonneg small] c by simp
qed

theorem id_round_trip_witness:
  "(0::int) \<le> 1700000000000 \<and> (1700000000000::int) < 2 ^ 48 \<and>
   (0::int) \<le> 12345678901234567890123 \<and> (12345678901234567890123::int) < 2 ^ 80 \<and>
   parseId (createId 1700000000000 12345678901234567890123) =
     (1700000000000, 12345678901234567890123) \<and>
   parseId (createId 0 0) = (0, 0) \<and>
   parseId (createId (2 ^ 48 - 1) (2 ^ 80 - 1)) = (2 ^ 48 - 1, 2 ^ 80 - 1)"
  using id_round_trip [of 1700000000000 12345678901234567890123]
    id_round_trip [of 0 0] id_round_trip [of "2 ^ 48 - 1" "2 ^ 80 - 1"]
  by simp

end
